theory Spec2Isabelle
  imports Main "HOL-Library.Word"
begin

section \<open>The MQTT PubSub channel of open62541 (plugins/ua\_network\_pubsub\_mqtt.c)\<close>

subsection \<open>Status codes and enumerations\<close>

type_synonym UA_StatusCode = "32 word"
type_synonym UA_Byte = "8 word"
type_synonym UA_UInt16 = "16 word"
type_synonym UA_UInt32 = "32 word"
type_synonym UA_String = string
type_synonym UA_ByteString = "8 word list"

text \<open>
  The status codes come from the generated header \<^verbatim>\<open>statuscodes.h\<close>, which
  is outside the verified sources; the values are those of the OPC UA
  specification.
\<close>

definition UA_STATUSCODE_GOOD :: UA_StatusCode where
  "UA_STATUSCODE_GOOD = 0x00000000"

definition UA_STATUSCODE_BADINTERNALERROR :: UA_StatusCode where
  "UA_STATUSCODE_BADINTERNALERROR = 0x80020000"

definition UA_STATUSCODE_BADARGUMENTSMISSING :: UA_StatusCode where
  "UA_STATUSCODE_BADARGUMENTSMISSING = 0x80760000"

definition UA_STATUSCODE_BADINVALIDARGUMENT :: UA_StatusCode where
  "UA_STATUSCODE_BADINVALIDARGUMENT = 0x80AB0000"

definition UA_STATUSCODE_BADCONNECTIONCLOSED :: UA_StatusCode where
  "UA_STATUSCODE_BADCONNECTIONCLOSED = 0x80AE0000"

text \<open>
  \<^verbatim>\<open>UA_BrokerTransportQualityOfService\<close> is a C enum, so a variable of that
  type holds any 32-bit value. The named values are those of the generated
  types header (OPC UA part 14): NotSpecified 0, BestEffort 1, AtLeastOnce 2,
  AtMostOnce 3, ExactlyOnce 4.
\<close>

type_synonym UA_BrokerTransportQualityOfService = "32 word"

definition UA_BROKERTRANSPORTQUALITYOFSERVICE_NOTSPECIFIED ::
    UA_BrokerTransportQualityOfService where
  "UA_BROKERTRANSPORTQUALITYOFSERVICE_NOTSPECIFIED = 0"

definition UA_BROKERTRANSPORTQUALITYOFSERVICE_BESTEFFORT ::
    UA_BrokerTransportQualityOfService where
  "UA_BROKERTRANSPORTQUALITYOFSERVICE_BESTEFFORT = 1"

definition UA_BROKERTRANSPORTQUALITYOFSERVICE_ATLEASTONCE ::
    UA_BrokerTransportQualityOfService where
  "UA_BROKERTRANSPORTQUALITYOFSERVICE_ATLEASTONCE = 2"

definition UA_BROKERTRANSPORTQUALITYOFSERVICE_ATMOSTONCE ::
    UA_BrokerTransportQualityOfService where
  "UA_BROKERTRANSPORTQUALITYOFSERVICE_ATMOSTONCE = 3"

definition UA_BROKERTRANSPORTQUALITYOFSERVICE_EXACTLYONCE ::
    UA_BrokerTransportQualityOfService where
  "UA_BROKERTRANSPORTQUALITYOFSERVICE_EXACTLYONCE = 4"

text \<open>
  Modelled from the spec: the declaration of \<^verbatim>\<open>UA_PubSubChannelState\<close> is in a
  header outside the verified sources. The spec names the channel
  states Ready, Error and Closed; the source uses exactly the three
  enumerators below.
\<close>

datatype UA_PubSubChannelState =
    UA_PUBSUB_CHANNEL_RDY
  | UA_PUBSUB_CHANNEL_ERROR
  | UA_PUBSUB_CHANNEL_CLOSED

subsection \<open>The QoS translation\<close>

text \<open>
  \<^verbatim>\<open>UA_uaQos_toMqttQos(uaQos, &qos)\<close> writes through the pointer \<open>qos\<close> in
  three cases of the switch and leaves the pointee alone in the default case.
  The model takes the value the caller initialised \<open>qos\<close> with and returns
  the status code together with the value of \<open>qos\<close> afterwards.
\<close>

definition UA_uaQos_toMqttQos ::
    "UA_BrokerTransportQualityOfService \<Rightarrow> UA_Byte \<Rightarrow> UA_StatusCode \<times> UA_Byte" where
  "UA_uaQos_toMqttQos uaQos qos =
     (if uaQos = UA_BROKERTRANSPORTQUALITYOFSERVICE_BESTEFFORT
        then (UA_STATUSCODE_GOOD, 0)
      else if uaQos = UA_BROKERTRANSPORTQUALITYOFSERVICE_ATLEASTONCE
        then (UA_STATUSCODE_GOOD, 1)
      else if uaQos = UA_BROKERTRANSPORTQUALITYOFSERVICE_ATMOSTONCE
        then (UA_STATUSCODE_GOOD, 2)
      else (UA_STATUSCODE_GOOD, qos))"

subsection \<open>Configuration data\<close>

record UA_NetworkAddressUrlDataType =
  networkInterface :: UA_String
  url :: UA_String

text \<open>
  A \<^verbatim>\<open>UA_Variant\<close> is either empty, a scalar of some data type, or an array.
  \<^verbatim>\<open>UA_Variant_hasScalarType(v, &UA_TYPES[T])\<close> holds exactly for a scalar of
  type \<open>T\<close>; the three projections below are that test for the three types the
  channel asks for, returning the value the source then reads through
  \<open>v.data\<close>.
\<close>

datatype scalar_value =
    UInt32_Value UA_UInt32
  | String_Value UA_String
  | NetworkAddressUrl_Value UA_NetworkAddressUrlDataType
  | Other_Value nat

datatype UA_Variant =
    Variant_Empty
  | Variant_Scalar scalar_value
  | Variant_Array "scalar_value list"

fun scalar_UINT32 :: "UA_Variant \<Rightarrow> UA_UInt32 option" where
  "scalar_UINT32 (Variant_Scalar (UInt32_Value n)) = Some n"
| "scalar_UINT32 _ = None"

fun scalar_STRING :: "UA_Variant \<Rightarrow> UA_String option" where
  "scalar_STRING (Variant_Scalar (String_Value s)) = Some s"
| "scalar_STRING _ = None"

fun scalar_NETWORKADDRESSURLDATATYPE ::
    "UA_Variant \<Rightarrow> UA_NetworkAddressUrlDataType option" where
  "scalar_NETWORKADDRESSURLDATATYPE (Variant_Scalar (NetworkAddressUrl_Value a)) = Some a"
| "scalar_NETWORKADDRESSURLDATATYPE _ = None"

record UA_QualifiedName =
  namespaceIndex :: UA_UInt16
  name :: UA_String

record UA_KeyValuePair =
  key :: UA_QualifiedName
  val :: UA_Variant

text \<open>
  Of \<^verbatim>\<open>UA_PubSubConnectionConfig\<close> the channel reads the address and the
  property array; \<open>connectionPropertiesSize\<close> is the length of the list.
\<close>

record UA_PubSubConnectionConfig =
  address :: UA_Variant
  connectionProperties :: "UA_KeyValuePair list"

text \<open>
  The transport settings of a writer group. The extension object is decoded
  or encoded; the source reads \<open>content.decoded\<close> only behind the test of the
  encoding, so the model keeps the decoded type index and the data (seen
  through the cast to the broker settings) as plain fields.
\<close>

datatype UA_ExtensionObjectEncoding =
    UA_EXTENSIONOBJECT_ENCODED_NOBODY
  | UA_EXTENSIONOBJECT_ENCODED_BYTESTRING
  | UA_EXTENSIONOBJECT_ENCODED_XML
  | UA_EXTENSIONOBJECT_DECODED
  | UA_EXTENSIONOBJECT_DECODED_NODELETE

datatype UA_TypeIndex =
    UA_TYPES_BROKERWRITERGROUPTRANSPORTDATATYPE
  | UA_TYPES_OTHER nat

record UA_BrokerWriterGroupTransportDataType =
  queueName :: UA_String
  resourceUri :: UA_String
  authenticationProfileUri :: UA_String
  requestedDeliveryGuarantee :: UA_BrokerTransportQualityOfService

record UA_ExtensionObject =
  encoding :: UA_ExtensionObjectEncoding
  decoded_typeIndex :: UA_TypeIndex
  decoded_data :: UA_BrokerWriterGroupTransportDataType

text \<open>
  The test that register, unregister and send all make on their
  \<open>transportSettings\<close> argument (a pointer, \<open>None\<close> for \<open>NULL\<close>):
  \<^verbatim>\<open>transportSettings != NULL && encoding == UA_EXTENSIONOBJECT_DECODED
  && content.decoded.type->typeIndex == UA_TYPES_BROKERWRITERGROUPTRANSPORTDATATYPE\<close>.
\<close>

definition brokerTransportSettings ::
    "UA_ExtensionObject option \<Rightarrow> UA_BrokerWriterGroupTransportDataType option" where
  "brokerTransportSettings transportSettings =
     (case transportSettings of
        None \<Rightarrow> None
      | Some ts \<Rightarrow>
          if encoding ts = UA_EXTENSIONOBJECT_DECODED
             \<and> decoded_typeIndex ts = UA_TYPES_BROKERWRITERGROUPTRANSPORTDATATYPE
          then Some (decoded_data ts)
          else None)"

subsection \<open>Memory\<close>

text \<open>
  The channel lives in allocated memory: \<^verbatim>\<open>UA_calloc\<close> creates the channel,
  its MQTT data and the two buffers, \<^verbatim>\<open>UA_free\<close> releases them. The heap is
  the list of the live blocks with their addresses; a pointer is an address,
  \<open>None\<close> for \<open>NULL\<close>.

  Fields of \<^verbatim>\<open>UA_PubSubChannelDataMQTT\<close> in the order of the initialiser in
  \<open>open\<close>. The fields \<open>connection\<close> and \<open>mqttClient\<close> are written by the MQTT
  adapter only and are \<open>NULL\<close> in everything this file writes; what the
  adapter holds for a channel is the \<open>links\<close> component of the world below.

  \<open>mqttClientId\<close> is a pointer to a string. \<open>open\<close> stores one of two
  pointers there: the address of its own automatic variable \<open>mqttClientId\<close>,
  which holds the given string while \<open>open\<close> runs and is dead once \<open>open\<close>
  has returned, or the address of the string value of a connection property,
  which the configuration owns.
\<close>

datatype UA_String_ptr =
    NULL_String
  | Automatic_String UA_String
  | Property_String UA_String

text \<open>What a read through the pointer gives while \<open>open\<close> runs, and after it.\<close>

fun read_during_open :: "UA_String_ptr \<Rightarrow> UA_String option" where
  "read_during_open NULL_String = None"
| "read_during_open (Automatic_String s) = Some s"
| "read_during_open (Property_String s) = Some s"

fun read_after_open :: "UA_String_ptr \<Rightarrow> UA_String option" where
  "read_after_open NULL_String = None"
| "read_after_open (Automatic_String s) = None"
| "read_after_open (Property_String s) = Some s"

record UA_PubSubChannelDataMQTT =
  cd_address :: UA_NetworkAddressUrlDataType
  mqttRecvBufferSize :: UA_UInt32
  mqttSendBufferSize :: UA_UInt32
  mqttSendBuffer :: "nat option"
  mqttRecvBuffer :: "nat option"
  mqttClientId :: UA_String_ptr
  callback :: "nat option"

text \<open>
  Of \<^verbatim>\<open>UA_PubSubChannel\<close>: the state and the handle (the pointer to the
  MQTT data). The function pointers the factory installs are the five
  operations below.
\<close>

record UA_PubSubChannel =
  state :: UA_PubSubChannelState
  handle :: "nat option"

datatype block =
    ChannelBlock UA_PubSubChannel
  | ChannelDataBlock UA_PubSubChannelDataMQTT
  | BufferBlock nat

text \<open>One call of a primitive of the MQTT adapter, with its arguments.\<close>

datatype mqtt_call =
    ConnectMqtt "nat option"
  | DisconnectMqtt "nat option"
  | SubscribeMqtt "nat option" UA_String UA_Byte
  | UnSubscribeMqtt "nat option" UA_String
  | PublishMqtt "nat option" UA_String UA_ByteString UA_Byte
  | YieldMqtt "nat option" UA_UInt16

text \<open>
  The world a channel runs in: the heap; \<open>calloc_fails\<close>, which says for each
  coming call of \<^verbatim>\<open>UA_calloc\<close> whether it returns \<open>NULL\<close> (none left: it
  succeeds); \<open>mqtt_rets\<close>, the status codes that the coming calls of the
  adapter will return (none left: good); \<open>mqtt_calls\<close>, the adapter calls made
  so far, oldest first; \<open>links\<close>, the channel data for which the adapter
  holds a transport connection; and \<open>connect_ids\<close>, for each connect call
  made so far the channel data it was given and the client identifier it read
  there.
\<close>

record world =
  heap :: "(nat \<times> block) list"
  calloc_fails :: "bool list"
  mqtt_rets :: "UA_StatusCode list"
  mqtt_calls :: "mqtt_call list"
  links :: "nat set"
  connect_ids :: "(nat \<times> UA_String option) list"

definition fresh_addr :: "(nat \<times> block) list \<Rightarrow> nat" where
  "fresh_addr h = Suc (fold max (map fst h) 0)"

definition heap_remove :: "nat \<Rightarrow> (nat \<times> block) list \<Rightarrow> (nat \<times> block) list" where
  "heap_remove a h = filter (\<lambda>kv. fst kv \<noteq> a) h"

definition heap_store :: "nat \<Rightarrow> block \<Rightarrow> world \<Rightarrow> world" where
  "heap_store a b w = w\<lparr>heap := (a, b) # heap_remove a (heap w)\<rparr>"

text \<open>
  \<^verbatim>\<open>UA_calloc\<close>: \<open>NULL\<close> when memory is exhausted, else a new block at an
  address that no live block has, holding the zeroed value \<open>b\<close>.
\<close>

definition UA_calloc :: "block \<Rightarrow> world \<Rightarrow> nat option \<times> world" where
  "UA_calloc b w =
     (case calloc_fails w of
        True # fs \<Rightarrow> (None, w\<lparr>calloc_fails := fs\<rparr>)
      | False # fs \<Rightarrow>
          (Some (fresh_addr (heap w)),
           w\<lparr>heap := (fresh_addr (heap w), b) # heap w, calloc_fails := fs\<rparr>)
      | [] \<Rightarrow>
          (Some (fresh_addr (heap w)),
           w\<lparr>heap := (fresh_addr (heap w), b) # heap w\<rparr>))"

text \<open>
  \<^verbatim>\<open>UA_free\<close>: nothing for \<open>NULL\<close>, else the block is no longer live. A
  free of an address with no live block is undefined in C and leaves the heap
  as it is here. No such free is reached below: \<open>open\<close> frees \<open>NULL\<close> or
  blocks it has allocated, and \<open>close\<close> is \<open>Inl InvalidPointer\<close> where its
  channel or its handle points to no live block.
\<close>

definition UA_free :: "nat option \<Rightarrow> world \<Rightarrow> world" where
  "UA_free p w =
     (case p of
        None \<Rightarrow> w
      | Some a \<Rightarrow> w\<lparr>heap := heap_remove a (heap w)\<rparr>)"

text \<open>
  Reading through a pointer: the channel, or the MQTT data, at an address.
  \<open>None\<close> when no live block of that type is there; an operation that
  dereferences such a pointer has no defined behaviour in C and is the value
  \<open>Inl InvalidPointer\<close> in the model.
\<close>

datatype fault = InvalidPointer

definition get_channel :: "world \<Rightarrow> nat \<Rightarrow> UA_PubSubChannel option" where
  "get_channel w c =
     (case map_of (heap w) c of
        Some (ChannelBlock ch) \<Rightarrow> Some ch
      | _ \<Rightarrow> None)"

definition get_channelData :: "world \<Rightarrow> nat \<Rightarrow> UA_PubSubChannelDataMQTT option" where
  "get_channelData w a =
     (case map_of (heap w) a of
        Some (ChannelDataBlock cd) \<Rightarrow> Some cd
      | _ \<Rightarrow> None)"

definition channel_state :: "world \<Rightarrow> nat \<Rightarrow> UA_PubSubChannelState option" where
  "channel_state w c = map_option state (get_channel w c)"

definition buffers_live :: "world \<Rightarrow> nat list" where
  "buffers_live w =
     map fst (filter (\<lambda>kv. case snd kv of BufferBlock n \<Rightarrow> True | _ \<Rightarrow> False) (heap w))"

subsection \<open>The MQTT adapter\<close>

text \<open>
  Modelled from the spec: the adapter (mqtt/ua\_mqtt\_adapter.c) is outside
  the verified sources. The spec has the channel consume it only through the
  connect, disconnect, subscribe, unsubscribe, publish and pump primitives.
  Each primitive records its call; all but disconnect, whose result the
  channel never reads, return the next status code of \<open>mqtt_rets\<close>.

  Connect reads the client identifier through the pointer in the channel data
  (it is called by \<open>open\<close> only, so it reads while \<open>open\<close> runs) and
  records it. A connect attempt makes the adapter hold a transport connection
  for the channel data also when it reports a failure (the source then calls
  disconnect "to disconnect tcp").

  Disconnect: the spec has \<open>close\<close> release the connection and both buffers,
  and has the buffers released exactly once, on close or on the rollback of
  \<open>open\<close>. In the source \<open>close\<close> reaches the buffers through disconnect
  only, and the rollback of \<open>open\<close> frees both buffer pointers after
  disconnect. So disconnect releases the connection, frees the buffers that
  the channel data points to, and sets the two pointers to \<open>NULL\<close>. For a
  pointer to no live channel data it only gives up the connection.
\<close>

definition mqtt_primitive :: "mqtt_call \<Rightarrow> world \<Rightarrow> UA_StatusCode \<times> world" where
  "mqtt_primitive call w =
     (case mqtt_rets w of
        [] \<Rightarrow> (UA_STATUSCODE_GOOD, w\<lparr>mqtt_calls := mqtt_calls w @ [call]\<rparr>)
      | r # rs \<Rightarrow> (r, w\<lparr>mqtt_rets := rs, mqtt_calls := mqtt_calls w @ [call]\<rparr>))"

definition clientId_read :: "world \<Rightarrow> nat option \<Rightarrow> (nat \<times> UA_String option) list" where
  "clientId_read w channelData =
     (case channelData of
        None \<Rightarrow> []
      | Some p \<Rightarrow>
          [(p, case get_channelData w p of
                 None \<Rightarrow> None
               | Some cd \<Rightarrow> read_during_open (mqttClientId cd))])"

definition connectMqtt :: "nat option \<Rightarrow> world \<Rightarrow> UA_StatusCode \<times> world" where
  "connectMqtt channelData w =
     (case mqtt_primitive (ConnectMqtt channelData) w of
        (ret, w') \<Rightarrow>
          (ret, w'\<lparr>links := links w' \<union> set_option channelData,
                   connect_ids := connect_ids w' @ clientId_read w channelData\<rparr>))"

definition release_buffers :: "nat option \<Rightarrow> world \<Rightarrow> world" where
  "release_buffers channelData w =
     (case channelData of
        None \<Rightarrow> w
      | Some p \<Rightarrow>
          (case get_channelData w p of
             None \<Rightarrow> w
           | Some cd \<Rightarrow>
               heap_store p
                 (ChannelDataBlock (cd\<lparr>mqttSendBuffer := None, mqttRecvBuffer := None\<rparr>))
                 (UA_free (mqttSendBuffer cd) (UA_free (mqttRecvBuffer cd) w))))"

definition disconnectMqtt :: "nat option \<Rightarrow> world \<Rightarrow> world" where
  "disconnectMqtt channelData w =
     (release_buffers channelData w)
       \<lparr>mqtt_calls := mqtt_calls w @ [DisconnectMqtt channelData],
        links := links w - set_option channelData\<rparr>"

definition subscribeMqtt ::
    "nat option \<Rightarrow> UA_String \<Rightarrow> UA_Byte \<Rightarrow> world \<Rightarrow> UA_StatusCode \<times> world" where
  "subscribeMqtt channelData topic qos w =
     mqtt_primitive (SubscribeMqtt channelData topic qos) w"

definition unSubscribeMqtt ::
    "nat option \<Rightarrow> UA_String \<Rightarrow> world \<Rightarrow> UA_StatusCode \<times> world" where
  "unSubscribeMqtt channelData topic w =
     mqtt_primitive (UnSubscribeMqtt channelData topic) w"

definition publishMqtt ::
    "nat option \<Rightarrow> UA_String \<Rightarrow> UA_ByteString \<Rightarrow> UA_Byte \<Rightarrow> world
      \<Rightarrow> UA_StatusCode \<times> world" where
  "publishMqtt channelData topic buf qos w =
     mqtt_primitive (PublishMqtt channelData topic buf qos) w"

definition yieldMqtt ::
    "nat option \<Rightarrow> UA_UInt16 \<Rightarrow> world \<Rightarrow> UA_StatusCode \<times> world" where
  "yieldMqtt channelData timeout w =
     mqtt_primitive (YieldMqtt channelData timeout) w"

subsection \<open>Opening a channel\<close>

text \<open>What \<^verbatim>\<open>UA_calloc\<close> returns: every field zero, every pointer \<open>NULL\<close>.\<close>

definition zero_channelData :: UA_PubSubChannelDataMQTT where
  "zero_channelData =
     \<lparr>cd_address = \<lparr>networkInterface = [], url = []\<rparr>,
      mqttRecvBufferSize = 0, mqttSendBufferSize = 0,
      mqttSendBuffer = None, mqttRecvBuffer = None,
      mqttClientId = NULL_String, callback = None\<rparr>"

definition zero_channel :: UA_PubSubChannel where
  "zero_channel = \<lparr>state = UA_PUBSUB_CHANNEL_RDY, handle = None\<rparr>"

text \<open>
  The default values (source lines 62-64):
  \<^verbatim>\<open>{address, 2000, 2000, NULL, NULL, &mqttClientId, NULL, NULL, NULL}\<close> with
  \<^verbatim>\<open>mqttClientId = UA_STRING("open62541_pub")\<close>, an automatic variable of
  \<open>open\<close>.
\<close>

definition default_channelData ::
    "UA_NetworkAddressUrlDataType \<Rightarrow> UA_PubSubChannelDataMQTT" where
  "default_channelData addr =
     \<lparr>cd_address = addr,
      mqttRecvBufferSize = 2000, mqttSendBufferSize = 2000,
      mqttSendBuffer = None, mqttRecvBuffer = None,
      mqttClientId = Automatic_String ''open62541_pub'', callback = None\<rparr>"

text \<open>
  The body of the loop over the connection properties (lines 67-83): a
  property named sendBufferSize, recvBufferSize or mqttClientId sets its
  field when its value is a scalar of the right type; any other property is
  logged and ignored.
\<close>

definition connectionProperty ::
    "UA_KeyValuePair \<Rightarrow> UA_PubSubChannelDataMQTT \<Rightarrow> UA_PubSubChannelDataMQTT" where
  "connectionProperty kv channelDataMQTT =
     (if name (key kv) = ''sendBufferSize'' then
        (case scalar_UINT32 (val kv) of
           Some n \<Rightarrow> channelDataMQTT\<lparr>mqttSendBufferSize := n\<rparr>
         | None \<Rightarrow> channelDataMQTT)
      else if name (key kv) = ''recvBufferSize'' then
        (case scalar_UINT32 (val kv) of
           Some n \<Rightarrow> channelDataMQTT\<lparr>mqttRecvBufferSize := n\<rparr>
         | None \<Rightarrow> channelDataMQTT)
      else if name (key kv) = ''mqttClientId'' then
        (case scalar_STRING (val kv) of
           Some s \<Rightarrow> channelDataMQTT\<lparr>mqttClientId := Property_String s\<rparr>
         | None \<Rightarrow> channelDataMQTT)
      else channelDataMQTT)"

definition connectionProperties_loop ::
    "UA_KeyValuePair list \<Rightarrow> UA_PubSubChannelDataMQTT \<Rightarrow> UA_PubSubChannelDataMQTT" where
  "connectionProperties_loop kvs channelDataMQTT = fold connectionProperty kvs channelDataMQTT"

text \<open>
  \<^verbatim>\<open>UA_PubSubChannelMQTT_open\<close>, in the four stages of the source. Each stage
  takes the addresses of the MQTT data and of the channel, the buffer stages
  also the current value of the MQTT data, and returns the pointer that
  \<open>open\<close> returns (\<open>None\<close> for \<open>NULL\<close>).

  Lines 116-133: link the handle, connect; on a failure disconnect, free both
  buffers, the MQTT data and the channel, and return \<open>NULL\<close>. The two buffer
  pointers are read from the MQTT data after the disconnect, as the source
  reads them.
\<close>

definition read_mqttSendBuffer :: "world \<Rightarrow> nat \<Rightarrow> nat option" where
  "read_mqttSendBuffer w cd_p =
     (case get_channelData w cd_p of None \<Rightarrow> None | Some cd \<Rightarrow> mqttSendBuffer cd)"

definition read_mqttRecvBuffer :: "world \<Rightarrow> nat \<Rightarrow> nat option" where
  "read_mqttRecvBuffer w cd_p =
     (case get_channelData w cd_p of None \<Rightarrow> None | Some cd \<Rightarrow> mqttRecvBuffer cd)"

definition open_connect :: "nat \<Rightarrow> nat \<Rightarrow> world \<Rightarrow> nat option \<times> world" where
  "open_connect cd_p ch_p w =
     (let newChannel = zero_channel\<lparr>handle := Some cd_p\<rparr>;
          w1 = heap_store ch_p (ChannelBlock newChannel) w
      in case connectMqtt (Some cd_p) w1 of
           (ret, w2) \<Rightarrow>
             if ret \<noteq> UA_STATUSCODE_GOOD then
               (let w3 = disconnectMqtt (Some cd_p) w2;
                    w4 = UA_free (read_mqttSendBuffer w3 cd_p) w3;
                    w5 = UA_free (read_mqttRecvBuffer w4 cd_p) w4
                in (None, UA_free (Some ch_p) (UA_free (Some cd_p) w5)))
             else
               (Some ch_p,
                heap_store ch_p
                  (ChannelBlock (newChannel\<lparr>state := UA_PUBSUB_CHANNEL_RDY\<rparr>)) w2))"

text \<open>Lines 103-114: the send buffer, when its size is not zero.\<close>

definition open_sendBuffer ::
    "nat \<Rightarrow> nat \<Rightarrow> UA_PubSubChannelDataMQTT \<Rightarrow> world \<Rightarrow> nat option \<times> world" where
  "open_sendBuffer cd_p ch_p channelDataMQTT w =
     (if mqttSendBufferSize channelDataMQTT > 0 then
        (case UA_calloc (BufferBlock (unat (mqttSendBufferSize channelDataMQTT))) w of
           (None, w1) \<Rightarrow>
             (None,
              UA_free (Some ch_p)
                (UA_free (Some cd_p)
                  (if mqttRecvBufferSize channelDataMQTT > 0
                   then UA_free (mqttRecvBuffer channelDataMQTT) w1
                   else w1)))
         | (Some b, w1) \<Rightarrow>
             (let cd' = channelDataMQTT\<lparr>mqttSendBuffer := Some b\<rparr>
              in open_connect cd_p ch_p
                   (heap_store cd_p (ChannelDataBlock cd') w1)))
      else open_connect cd_p ch_p w)"

text \<open>Lines 93-101: the receive buffer, when its size is not zero.\<close>

definition open_recvBuffer ::
    "nat \<Rightarrow> nat \<Rightarrow> UA_PubSubChannelDataMQTT \<Rightarrow> world \<Rightarrow> nat option \<times> world" where
  "open_recvBuffer cd_p ch_p channelDataMQTT w =
     (if mqttRecvBufferSize channelDataMQTT > 0 then
        (case UA_calloc (BufferBlock (unat (mqttRecvBufferSize channelDataMQTT))) w of
           (None, w1) \<Rightarrow> (None, UA_free (Some ch_p) (UA_free (Some cd_p) w1))
         | (Some b, w1) \<Rightarrow>
             (let cd' = channelDataMQTT\<lparr>mqttRecvBuffer := Some b\<rparr>
              in open_sendBuffer cd_p ch_p cd'
                   (heap_store cd_p (ChannelDataBlock cd') w1)))
      else open_sendBuffer cd_p ch_p channelDataMQTT w)"

text \<open>
  Lines 44-91: the address must be a scalar network address; the MQTT data
  is allocated, set to the defaults and then to the given properties; the
  channel is allocated.
\<close>

definition UA_PubSubChannelMQTT_open ::
    "UA_PubSubConnectionConfig \<Rightarrow> world \<Rightarrow> nat option \<times> world" where
  "UA_PubSubChannelMQTT_open connectionConfig w =
     (case scalar_NETWORKADDRESSURLDATATYPE (address connectionConfig) of
        None \<Rightarrow> (None, w)
      | Some addr \<Rightarrow>
          (case UA_calloc (ChannelDataBlock zero_channelData) w of
             (None, w1) \<Rightarrow> (None, w1)
           | (Some cd_p, w1) \<Rightarrow>
               (let channelDataMQTT =
                      connectionProperties_loop (connectionProperties connectionConfig)
                        (default_channelData addr);
                    w2 = heap_store cd_p (ChannelDataBlock channelDataMQTT) w1
                in case UA_calloc (ChannelBlock zero_channel) w2 of
                     (None, w3) \<Rightarrow> (None, UA_free (Some cd_p) w3)
                   | (Some ch_p, w3) \<Rightarrow>
                       open_recvBuffer cd_p ch_p channelDataMQTT w3)))"

subsection \<open>The operations on a channel\<close>

text \<open>
  Each operation takes the channel pointer and the world and returns the
  status code with the world afterwards, or \<open>Inl InvalidPointer\<close> where the
  source dereferences a pointer to no live block.

  \<^verbatim>\<open>UA_PubSubChannelMQTT_regist\<close> (lines 141-164): the callback is stored
  before the settings are looked at.
\<close>

definition UA_PubSubChannelMQTT_regist ::
    "nat \<Rightarrow> UA_ExtensionObject option \<Rightarrow> nat option \<Rightarrow> world
      \<Rightarrow> fault + (UA_StatusCode \<times> world)" where
  "UA_PubSubChannelMQTT_regist channel transportSettings cb w =
     (case get_channel w channel of
        None \<Rightarrow> Inl InvalidPointer
      | Some ch \<Rightarrow>
          if state ch \<noteq> UA_PUBSUB_CHANNEL_RDY
          then Inr (UA_STATUSCODE_BADCONNECTIONCLOSED, w)
          else
            (case handle ch of
               None \<Rightarrow> Inl InvalidPointer
             | Some cd_p \<Rightarrow>
                 (case get_channelData w cd_p of
                    None \<Rightarrow> Inl InvalidPointer
                  | Some channelDataMQTT \<Rightarrow>
                      (let w1 = heap_store cd_p
                                  (ChannelDataBlock (channelDataMQTT\<lparr>callback := cb\<rparr>)) w
                       in case brokerTransportSettings transportSettings of
                            Some bts \<Rightarrow>
                              (case UA_uaQos_toMqttQos (requestedDeliveryGuarantee bts) 0 of
                                 (_, qos) \<Rightarrow>
                                   Inr (subscribeMqtt (Some cd_p) (queueName bts) qos w1))
                          | None \<Rightarrow> Inr (UA_STATUSCODE_BADARGUMENTSMISSING, w1)))))"

text \<open>\<^verbatim>\<open>UA_PubSubChannelMQTT_unregist\<close> (lines 171-190).\<close>

definition UA_PubSubChannelMQTT_unregist ::
    "nat \<Rightarrow> UA_ExtensionObject option \<Rightarrow> world \<Rightarrow> fault + (UA_StatusCode \<times> world)" where
  "UA_PubSubChannelMQTT_unregist channel transportSettings w =
     (case get_channel w channel of
        None \<Rightarrow> Inl InvalidPointer
      | Some ch \<Rightarrow>
          if state ch \<noteq> UA_PUBSUB_CHANNEL_RDY
          then Inr (UA_STATUSCODE_BADCONNECTIONCLOSED, w)
          else
            (case brokerTransportSettings transportSettings of
               Some bts \<Rightarrow> Inr (unSubscribeMqtt (handle ch) (queueName bts) w)
             | None \<Rightarrow> Inr (UA_STATUSCODE_BADARGUMENTSMISSING, w)))"

text \<open>
  \<^verbatim>\<open>UA_PubSubChannelMQTT_send\<close> (lines 197-227): \<open>ret\<close> starts as good and
  \<open>qos\<close> as 0; only the branch with valid settings assigns \<open>ret\<close>.
\<close>

definition UA_PubSubChannelMQTT_send ::
    "nat \<Rightarrow> UA_ExtensionObject option \<Rightarrow> UA_ByteString \<Rightarrow> world
      \<Rightarrow> fault + (UA_StatusCode \<times> world)" where
  "UA_PubSubChannelMQTT_send channel transportSettings buf w =
     (case get_channel w channel of
        None \<Rightarrow> Inl InvalidPointer
      | Some ch \<Rightarrow>
          if state ch \<noteq> UA_PUBSUB_CHANNEL_RDY
          then Inr (UA_STATUSCODE_BADCONNECTIONCLOSED, w)
          else
            (case brokerTransportSettings transportSettings of
               Some bts \<Rightarrow>
                 (case UA_uaQos_toMqttQos (requestedDeliveryGuarantee bts) 0 of
                    (_, qos) \<Rightarrow>
                      (case publishMqtt (handle ch) (queueName bts) buf qos w of
                         (ret, w1) \<Rightarrow>
                           if ret \<noteq> 0
                           then Inr (ret,
                                  heap_store channel
                                    (ChannelBlock (ch\<lparr>state := UA_PUBSUB_CHANNEL_ERROR\<rparr>)) w1)
                           else Inr (ret, w1)))
             | None \<Rightarrow> Inr (UA_STATUSCODE_GOOD, w)))"

text \<open>
  \<^verbatim>\<open>UA_PubSubChannelMQTT_close\<close> (lines 234-245): nothing for a channel in
  the closed state; else disconnect, free the MQTT data, free the channel.
  The handle is handed to disconnect and to \<^verbatim>\<open>UA_free\<close>, so it has to be
  \<open>NULL\<close> or point to live MQTT data.
\<close>

definition UA_PubSubChannelMQTT_close ::
    "nat \<Rightarrow> world \<Rightarrow> fault + (UA_StatusCode \<times> world)" where
  "UA_PubSubChannelMQTT_close channel w =
     (case get_channel w channel of
        None \<Rightarrow> Inl InvalidPointer
      | Some ch \<Rightarrow>
          if state ch = UA_PUBSUB_CHANNEL_CLOSED
          then Inr (UA_STATUSCODE_GOOD, w)
          else if (case handle ch of
                     None \<Rightarrow> False
                   | Some cd_p \<Rightarrow> get_channelData w cd_p = None)
          then Inl InvalidPointer
          else Inr (UA_STATUSCODE_GOOD,
                 UA_free (Some channel)
                   (UA_free (handle ch) (disconnectMqtt (handle ch) w))))"

text \<open>
  \<^verbatim>\<open>UA_PubSubChannelMQTT_yield\<close> (lines 252-271); the only operation that
  tests its channel pointer for \<open>NULL\<close>.
\<close>

definition UA_PubSubChannelMQTT_yield ::
    "nat option \<Rightarrow> UA_UInt16 \<Rightarrow> world \<Rightarrow> fault + (UA_StatusCode \<times> world)" where
  "UA_PubSubChannelMQTT_yield channel timeout w =
     (case channel of
        None \<Rightarrow> Inr (UA_STATUSCODE_BADINVALIDARGUMENT, w)
      | Some c \<Rightarrow>
          (case get_channel w c of
             None \<Rightarrow> Inl InvalidPointer
           | Some ch \<Rightarrow>
               if state ch = UA_PUBSUB_CHANNEL_ERROR
               then Inr (UA_STATUSCODE_BADINTERNALERROR, w)
               else
                 (case yieldMqtt (handle ch) timeout w of
                    (ret, w1) \<Rightarrow>
                      if ret \<noteq> UA_STATUSCODE_GOOD
                      then Inr (ret,
                             heap_store c
                               (ChannelBlock (ch\<lparr>state := UA_PUBSUB_CHANNEL_ERROR\<rparr>)) w1)
                      else Inr (ret, w1))))"

subsection \<open>Sequences of operations\<close>

datatype channel_op =
    Regist "UA_ExtensionObject option" "nat option"
  | Unregist "UA_ExtensionObject option"
  | Send "UA_ExtensionObject option" UA_ByteString
  | Yield UA_UInt16
  | Close

fun step :: "nat \<Rightarrow> channel_op \<Rightarrow> world \<Rightarrow> fault + (UA_StatusCode \<times> world)" where
  "step c (Regist ts cb) w = UA_PubSubChannelMQTT_regist c ts cb w"
| "step c (Unregist ts) w = UA_PubSubChannelMQTT_unregist c ts w"
| "step c (Send ts buf) w = UA_PubSubChannelMQTT_send c ts buf w"
| "step c (Yield timeout) w = UA_PubSubChannelMQTT_yield (Some c) timeout w"
| "step c Close w = UA_PubSubChannelMQTT_close c w"

text \<open>
  A caller driving one channel through a list of operations; it stops at the
  first invalid dereference. The result is the list of status codes and the
  world at the end.
\<close>

fun run :: "nat \<Rightarrow> channel_op list \<Rightarrow> world \<Rightarrow> fault + (UA_StatusCode list \<times> world)" where
  "run c [] w = Inr ([], w)"
| "run c (op # ops) w =
     (case step c op w of
        Inl f \<Rightarrow> Inl f
      | Inr (ret, w1) \<Rightarrow>
          (case run c ops w1 of
             Inl f \<Rightarrow> Inl f
           | Inr (rets, w2) \<Rightarrow> Inr (ret # rets, w2)))"

subsection \<open>Blocks released together\<close>

text \<open>The heap without the blocks at the addresses in \<open>A\<close>.\<close>

definition heap_purge :: "nat set \<Rightarrow> (nat \<times> block) list \<Rightarrow> (nat \<times> block) list" where
  "heap_purge A h = filter (\<lambda>kv. fst kv \<notin> A) h"

subsection \<open>A concrete channel\<close>

text \<open>
  A configuration with a valid address and no properties, a world with
  nothing allocated in which no allocation and no adapter call fails, and the
  world after \<open>open\<close> in it: the channel is at address 2, its MQTT data at 1,
  the receive buffer at 3 and the send buffer at 4. \<open>closed_world\<close> is the
  world after \<open>close\<close> of that channel.
\<close>

definition example_config :: UA_PubSubConnectionConfig where
  "example_config =
     \<lparr>address = Variant_Scalar (NetworkAddressUrl_Value
         \<lparr>networkInterface = [], url = ''opc.mqtt://localhost:1883''\<rparr>),
      connectionProperties = []\<rparr>"

definition empty_world :: world where
  "empty_world =
     \<lparr>heap = [], calloc_fails = [], mqtt_rets = [], mqtt_calls = [], links = {},
      connect_ids = []\<rparr>"

definition ready_world :: world where
  "ready_world =
     \<lparr>heap =
        [(2, ChannelBlock \<lparr>state = UA_PUBSUB_CHANNEL_RDY, handle = Some 1\<rparr>),
         (1, ChannelDataBlock
               \<lparr>cd_address = \<lparr>networkInterface = [], url = ''opc.mqtt://localhost:1883''\<rparr>,
                mqttRecvBufferSize = 2000, mqttSendBufferSize = 2000,
                mqttSendBuffer = Some 4, mqttRecvBuffer = Some 3,
                mqttClientId = Automatic_String ''open62541_pub'', callback = None\<rparr>),
         (4, BufferBlock 2000), (3, BufferBlock 2000)],
      calloc_fails = [], mqtt_rets = [],
      mqtt_calls = [ConnectMqtt (Some 1)], links = {1},
      connect_ids = [(1, Some ''open62541_pub'')]\<rparr>"

definition closed_world :: world where
  "closed_world =
     \<lparr>heap = [], calloc_fails = [], mqtt_rets = [],
      mqtt_calls = [ConnectMqtt (Some 1), DisconnectMqtt (Some 1)], links = {},
      connect_ids = [(1, Some ''open62541_pub'')]\<rparr>"

text \<open>
  Decoded broker settings for the topic \<open>t\<close> with the delivery guarantee
  \<open>g\<close>; a world like \<open>ready_world\<close> in which the next adapter call reports
  the failure \<open>0x80050000\<close> (a communication error); and the world after a
  send of the payload \<open>[1]\<close> with guarantee at-least-once in it.
\<close>

definition example_settings :: "UA_BrokerTransportQualityOfService \<Rightarrow> UA_ExtensionObject" where
  "example_settings g =
     \<lparr>encoding = UA_EXTENSIONOBJECT_DECODED,
      decoded_typeIndex = UA_TYPES_BROKERWRITERGROUPTRANSPORTDATATYPE,
      decoded_data =
        \<lparr>queueName = ''t'', resourceUri = [], authenticationProfileUri = [],
         requestedDeliveryGuarantee = g\<rparr>\<rparr>"

definition failing_world :: world where
  "failing_world = ready_world\<lparr>mqtt_rets := [0x80050000]\<rparr>"

definition error_world :: world where
  "error_world =
     ready_world
       \<lparr>heap :=
          [(2, ChannelBlock \<lparr>state = UA_PUBSUB_CHANNEL_ERROR, handle = Some 1\<rparr>),
           (1, ChannelDataBlock
                 \<lparr>cd_address = \<lparr>networkInterface = [], url = ''opc.mqtt://localhost:1883''\<rparr>,
                  mqttRecvBufferSize = 2000, mqttSendBufferSize = 2000,
                  mqttSendBuffer = Some 4, mqttRecvBuffer = Some 3,
                  mqttClientId = Automatic_String ''open62541_pub'', callback = None\<rparr>),
           (4, BufferBlock 2000), (3, BufferBlock 2000)],
        mqtt_calls := [ConnectMqtt (Some 1), PublishMqtt (Some 1) ''t'' [1] 1]\<rparr>"

section \<open>The nodestore switch\<close>

text \<open>
  Modelled from the spec: the nodestore switch (plugins/ua\_nodestore\_switch.c)
  is outside the verified sources; only its use in
  examples/server\_nodestore\_switch.c is there. After the spec, the switch is a
  table from namespace indices to backend references with a default backend;
  \<open>setBackend(index, handleOrNone)\<close> installs, replaces or removes the entry
  for \<open>index\<close> and never destroys a backend, and \<open>getBackend(index)\<close> returns
  the mapped backend, or the default backend when none is mapped. A backend
  is referred to by its address; \<open>nodestores\<close> holds the live backends with
  the identifiers of the nodes in each, which is what the \<open>iterate\<close> capability
  of a backend visits.
\<close>

record UA_Nodestore_Switch =
  defaultNodestore :: nat
  nodestoreArray :: "UA_UInt16 \<rightharpoonup> nat"

record server_world =
  switch :: UA_Nodestore_Switch
  nodestores :: "nat \<rightharpoonup> string list"

definition UA_Nodestore_Switch_setNodestore ::
    "UA_UInt16 \<Rightarrow> nat option \<Rightarrow> server_world \<Rightarrow> server_world" where
  "UA_Nodestore_Switch_setNodestore index nodestore w =
     w\<lparr>switch := (switch w)\<lparr>nodestoreArray := (nodestoreArray (switch w))(index := nodestore)\<rparr>\<rparr>"

definition UA_Nodestore_Switch_getNodestore :: "UA_UInt16 \<Rightarrow> server_world \<Rightarrow> nat" where
  "UA_Nodestore_Switch_getNodestore index w =
     (case nodestoreArray (switch w) index of
        Some nodestore \<Rightarrow> nodestore
      | None \<Rightarrow> defaultNodestore (switch w))"

definition iterate :: "nat \<Rightarrow> server_world \<Rightarrow> string list option" where
  "iterate nodestore w = nodestores w nodestore"

text \<open>
  The switch of the example: the default backend at 10, the backend at 20
  linked to namespace 1 and holding the three test nodes.
\<close>

definition example_server :: server_world where
  "example_server =
     \<lparr>switch = \<lparr>defaultNodestore = 10, nodestoreArray = [1 \<mapsto> 20]\<rparr>,
      nodestores = [10 \<mapsto> [], 20 \<mapsto> [''TestNode1'', ''TestNode2'', ''TestNode3'']]\<rparr>"

section \<open>Properties\<close>

subsection \<open>Constants\<close>

lemmas statuscode_defs =
  UA_STATUSCODE_GOOD_def UA_STATUSCODE_BADINTERNALERROR_def
  UA_STATUSCODE_BADARGUMENTSMISSING_def UA_STATUSCODE_BADINVALIDARGUMENT_def
  UA_STATUSCODE_BADCONNECTIONCLOSED_def

lemmas qos_enum_defs =
  UA_BROKERTRANSPORTQUALITYOFSERVICE_NOTSPECIFIED_def
  UA_BROKERTRANSPORTQUALITYOFSERVICE_BESTEFFORT_def
  UA_BROKERTRANSPORTQUALITYOFSERVICE_ATLEASTONCE_def
  UA_BROKERTRANSPORTQUALITYOFSERVICE_ATMOSTONCE_def
  UA_BROKERTRANSPORTQUALITYOFSERVICE_EXACTLYONCE_def

subsection \<open>Fresh addresses and the heap\<close>

lemma fold_max_ge: "a \<le> fold max xs (a::nat)"
  by (induction xs arbitrary: a) (auto intro: order_trans [OF max.cobounded2])

lemma fold_max_mem: "x \<in> set xs \<Longrightarrow> x \<le> fold max xs (a::nat)"
proof (induction xs arbitrary: a)
  case Nil
  then show ?case by simp
next
  case (Cons y ys)
  show ?case
  proof (cases "x = y")
    case True
    have "y \<le> max y a" by simp
    also have "\<dots> \<le> fold max ys (max y a)" by (rule fold_max_ge)
    finally show ?thesis using True by simp
  next
    case False
    with Cons.prems have "x \<in> set ys" by simp
    then show ?thesis using Cons.IH by simp
  qed
qed

lemma fresh_addr_gt: "k \<in> fst ` set h \<Longrightarrow> k < fresh_addr h"
  using fold_max_mem [of k "map fst h" 0] by (auto simp: fresh_addr_def)

lemma fresh_addr_notin [simp]: "(fresh_addr h, b) \<notin> set h"
  using fresh_addr_gt [of "fresh_addr h" h] by force

lemma fresh_addr_notin_Cons [simp]: "(fresh_addr (kv # h), b) \<notin> set h"
  using fresh_addr_notin [of "kv # h" b] by simp

lemma heap_remove_fresh [simp]: "heap_remove (fresh_addr h) h = h"
  unfolding heap_remove_def by (rule filter_True) (auto simp: prod_eq_iff)

lemma heap_remove_Cons [simp]:
  "heap_remove a (kv # h) = (if fst kv = a then heap_remove a h else kv # heap_remove a h)"
  by (simp add: heap_remove_def)

lemma heap_remove_Nil [simp]: "heap_remove a [] = []"
  by (simp add: heap_remove_def)

lemma heap_purge_Cons [simp]:
  "heap_purge A (kv # h) = (if fst kv \<in> A then heap_purge A h else kv # heap_purge A h)"
  by (simp add: heap_purge_def)

lemma heap_purge_Nil [simp]: "heap_purge A [] = []"
  by (simp add: heap_purge_def)

lemma heap_purge_remove:
  "heap_purge A (heap_remove a h) = heap_purge (insert a A) h"
  by (induction h) (auto simp: heap_purge_def)

lemma heap_remove_as_purge: "heap_remove a h = heap_purge {a} h"
  by (simp add: heap_purge_def heap_remove_def)

lemma heap_purge_cong:
  "(\<And>k b. (k, b) \<in> set h \<Longrightarrow> k \<in> A \<longleftrightarrow> k \<in> B) \<Longrightarrow> heap_purge A h = heap_purge B h"
  unfolding heap_purge_def by (rule filter_cong) auto

lemma heap_purge_id:
  "(\<And>k b. (k, b) \<in> set h \<Longrightarrow> k \<notin> A) \<Longrightarrow> heap_purge A h = h"
  unfolding heap_purge_def by (rule filter_True) auto

lemma heap_purge_empty [simp]: "heap_purge {} h = h"
  by (simp add: heap_purge_def)

lemma heap_purge_purge: "heap_purge A (heap_purge B h) = heap_purge (A \<union> B) h"
  by (induction h) (auto simp: heap_purge_def)

lemma map_of_heap_remove [simp]:
  "map_of (heap_remove a h) k = (if k = a then None else map_of h k)"
  by (induction h) (auto simp: heap_remove_def)

lemma map_of_heap_purge [simp]:
  "map_of (heap_purge A h) k = (if k \<in> A then None else map_of h k)"
  by (induction h) (auto simp: heap_purge_def)

lemma UA_calloc_ok:
  "True \<notin> set (calloc_fails w) \<Longrightarrow>
   UA_calloc b w =
     (Some (fresh_addr (heap w)),
      w\<lparr>heap := (fresh_addr (heap w), b) # heap w, calloc_fails := tl (calloc_fails w)\<rparr>)"
  by (cases "calloc_fails w") (auto simp: UA_calloc_def split: bool.splits)

lemma not_in_tl: "x \<notin> set l \<Longrightarrow> x \<notin> set (tl l)"
  by (cases l) auto

lemma UA_free_simps [simp]:
  "heap (UA_free p w) = heap_purge (set_option p) (heap w)"
  "calloc_fails (UA_free p w) = calloc_fails w"
  "mqtt_rets (UA_free p w) = mqtt_rets w"
  "mqtt_calls (UA_free p w) = mqtt_calls w"
  "links (UA_free p w) = links w"
  "connect_ids (UA_free p w) = connect_ids w"
  by (cases p; simp add: UA_free_def heap_remove_as_purge)+

lemma heap_store_simps [simp]:
  "heap (heap_store a b w) = (a, b) # heap_remove a (heap w)"
  "calloc_fails (heap_store a b w) = calloc_fails w"
  "mqtt_rets (heap_store a b w) = mqtt_rets w"
  "mqtt_calls (heap_store a b w) = mqtt_calls w"
  "links (heap_store a b w) = links w"
  "connect_ids (heap_store a b w) = connect_ids w"
  by (simp_all add: heap_store_def)

lemma get_channel_heap_store [simp]:
  "get_channel (heap_store a b w) k =
     (if k = a then (case b of ChannelBlock ch \<Rightarrow> Some ch | _ \<Rightarrow> None) else get_channel w k)"
  by (simp add: get_channel_def)

lemma get_channelData_heap_store [simp]:
  "get_channelData (heap_store a b w) k =
     (if k = a then (case b of ChannelDataBlock cd \<Rightarrow> Some cd | _ \<Rightarrow> None)
      else get_channelData w k)"
  by (simp add: get_channelData_def)

lemma get_channel_UA_free [simp]:
  "get_channel (UA_free p w) k = (if k \<in> set_option p then None else get_channel w k)"
  by (simp add: get_channel_def)

lemma get_channelData_UA_free [simp]:
  "get_channelData (UA_free p w) k = (if k \<in> set_option p then None else get_channelData w k)"
  by (simp add: get_channelData_def)

lemma get_channel_heap_eq: "heap w' = heap w \<Longrightarrow> get_channel w' = get_channel w"
  by (rule ext) (simp add: get_channel_def)

lemma get_channelData_heap_eq: "heap w' = heap w \<Longrightarrow> get_channelData w' = get_channelData w"
  by (rule ext) (simp add: get_channelData_def)

lemma get_channel_not_channelData:
  "get_channel w c = Some ch \<Longrightarrow> get_channelData w p = Some cd \<Longrightarrow> p \<noteq> c"
  by (auto simp: get_channel_def get_channelData_def split: option.splits block.splits)

subsection \<open>The adapter leaves the heap alone\<close>

lemma mqtt_primitive_simps [simp]:
  "heap (snd (mqtt_primitive call w)) = heap w"
  "mqtt_calls (snd (mqtt_primitive call w)) = mqtt_calls w @ [call]"
  "links (snd (mqtt_primitive call w)) = links w"
  "connect_ids (snd (mqtt_primitive call w)) = connect_ids w"
  "calloc_fails (snd (mqtt_primitive call w)) = calloc_fails w"
  "mqtt_rets (snd (mqtt_primitive call w)) = tl (mqtt_rets w)"
  "fst (mqtt_primitive call w) = (case mqtt_rets w of [] \<Rightarrow> UA_STATUSCODE_GOOD | r # rs \<Rightarrow> r)"
  by (simp_all add: mqtt_primitive_def split: list.splits)

lemma get_channel_mqtt_primitive [simp]:
  "get_channel (snd (mqtt_primitive call w)) = get_channel w"
  by (rule get_channel_heap_eq) simp

lemma get_channelData_mqtt_primitive [simp]:
  "get_channelData (snd (mqtt_primitive call w)) = get_channelData w"
  by (rule get_channelData_heap_eq) simp

lemma mqtt_primitive_eq:
  "mqtt_primitive call w = (ret, w') \<Longrightarrow>
     heap w' = heap w \<and> mqtt_calls w' = mqtt_calls w @ [call]
     \<and> ret = (case mqtt_rets w of [] \<Rightarrow> UA_STATUSCODE_GOOD | r # rs \<Rightarrow> r)"
  by (auto simp: mqtt_primitive_def split: list.splits)

subsection \<open>Disconnect\<close>

lemma release_buffers_None [simp]: "release_buffers None w = w"
  by (simp add: release_buffers_def)

lemma release_buffers_dangling:
  "get_channelData w p = None \<Longrightarrow> release_buffers (Some p) w = w"
  by (simp add: release_buffers_def)

lemma release_buffers_heap:
  "get_channelData w p = Some cd \<Longrightarrow>
   heap (release_buffers (Some p) w) =
     (p, ChannelDataBlock (cd\<lparr>mqttSendBuffer := None, mqttRecvBuffer := None\<rparr>))
       # heap_purge (insert p (set_option (mqttRecvBuffer cd) \<union> set_option (mqttSendBuffer cd)))
           (heap w)"
  by (simp add: release_buffers_def heap_remove_as_purge heap_purge_purge Un_commute)

lemma release_buffers_others [simp]:
  "calloc_fails (release_buffers q w) = calloc_fails w"
  "mqtt_rets (release_buffers q w) = mqtt_rets w"
  "mqtt_calls (release_buffers q w) = mqtt_calls w"
  "links (release_buffers q w) = links w"
  "connect_ids (release_buffers q w) = connect_ids w"
  by (simp_all add: release_buffers_def split: option.splits)

lemma disconnectMqtt_simps [simp]:
  "heap (disconnectMqtt q w) = heap (release_buffers q w)"
  "calloc_fails (disconnectMqtt q w) = calloc_fails w"
  "mqtt_rets (disconnectMqtt q w) = mqtt_rets w"
  "mqtt_calls (disconnectMqtt q w) = mqtt_calls w @ [DisconnectMqtt q]"
  "links (disconnectMqtt q w) = links w - set_option q"
  "connect_ids (disconnectMqtt q w) = connect_ids w"
  by (simp_all add: disconnectMqtt_def)

lemma get_channelData_disconnectMqtt:
  "get_channelData w p = Some cd \<Longrightarrow>
   get_channelData (disconnectMqtt (Some p) w) p =
     Some (cd\<lparr>mqttSendBuffer := None, mqttRecvBuffer := None\<rparr>)"
proof -
  assume "get_channelData w p = Some cd"
  then have "heap (disconnectMqtt (Some p) w) =
     (p, ChannelDataBlock (cd\<lparr>mqttSendBuffer := None, mqttRecvBuffer := None\<rparr>))
       # heap_purge (insert p (set_option (mqttRecvBuffer cd) \<union> set_option (mqttSendBuffer cd)))
           (heap w)"
    by (simp add: release_buffers_heap)
  then show ?thesis by (simp add: get_channelData_def)
qed

text \<open>
  What the adapter does not own it does not free: disconnect on live channel
  data removes from the heap at most the two buffers, and those only.
\<close>

lemma disconnectMqtt_heap_purge:
  assumes "get_channelData w p = Some cd" and "p \<in> A"
  shows "heap_purge A (heap (disconnectMqtt (Some p) w)) =
           heap_purge (A \<union> set_option (mqttRecvBuffer cd) \<union> set_option (mqttSendBuffer cd))
             (heap w)"
  using assms
  by (simp add: release_buffers_heap heap_purge_purge insert_absorb Un_assoc)

subsection \<open>Rollback of a failed connect\<close>

lemma get_channelData_update [simp]:
  "get_channelData (w\<lparr>links := l\<rparr>) = get_channelData w"
  "get_channelData (w\<lparr>connect_ids := i\<rparr>) = get_channelData w"
  "get_channelData (w\<lparr>mqtt_calls := c\<rparr>) = get_channelData w"
  "get_channelData (w\<lparr>mqtt_rets := r\<rparr>) = get_channelData w"
  "get_channelData (w\<lparr>calloc_fails := f\<rparr>) = get_channelData w"
  by (rule get_channelData_heap_eq, simp)+

lemma get_channel_update [simp]:
  "get_channel (w\<lparr>links := l\<rparr>) = get_channel w"
  "get_channel (w\<lparr>connect_ids := i\<rparr>) = get_channel w"
  "get_channel (w\<lparr>mqtt_calls := c\<rparr>) = get_channel w"
  "get_channel (w\<lparr>mqtt_rets := r\<rparr>) = get_channel w"
  "get_channel (w\<lparr>calloc_fails := f\<rparr>) = get_channel w"
  by (rule get_channel_heap_eq, simp)+

lemma open_connect_fails:
  assumes "mqtt_rets w = r # rs" and "r \<noteq> UA_STATUSCODE_GOOD"
      and "get_channelData w cd_p = Some cd" and "cd_p \<noteq> ch_p"
  shows "fst (open_connect cd_p ch_p w) = None"
    and "heap (snd (open_connect cd_p ch_p w)) =
           heap_purge ({ch_p, cd_p} \<union> set_option (mqttRecvBuffer cd)
                         \<union> set_option (mqttSendBuffer cd)) (heap w)"
    and "mqtt_calls (snd (open_connect cd_p ch_p w)) =
           mqtt_calls w @ [ConnectMqtt (Some cd_p), DisconnectMqtt (Some cd_p)]"
    and "links (snd (open_connect cd_p ch_p w)) = links w - {cd_p}"
  using assms
  by (auto simp: open_connect_def Let_def connectMqtt_def case_prod_beta
      read_mqttSendBuffer_def read_mqttRecvBuffer_def get_channelData_disconnectMqtt
      release_buffers_heap heap_purge_purge heap_purge_remove
      intro!: arg_cong2 [where f = heap_purge])

lemma open_sendBuffer_fails:
  assumes "mqtt_rets w = r # rs" and "r \<noteq> UA_STATUSCODE_GOOD"
      and "True \<notin> set (calloc_fails w)" and "mqttSendBuffer cd = None"
      and "get_channelData w cd_p = Some cd" and "cd_p \<noteq> ch_p"
  shows "fst (open_sendBuffer cd_p ch_p cd w) = None"
    and "heap (snd (open_sendBuffer cd_p ch_p cd w)) =
           heap_purge ({ch_p, cd_p} \<union> set_option (mqttRecvBuffer cd)) (heap w)"
    and "mqtt_calls (snd (open_sendBuffer cd_p ch_p cd w)) =
           mqtt_calls w @ [ConnectMqtt (Some cd_p), DisconnectMqtt (Some cd_p)]"
    and "links (snd (open_sendBuffer cd_p ch_p cd w)) = links w - {cd_p}"
  using assms
  by (auto simp: open_sendBuffer_def Let_def UA_calloc_ok
      open_connect_fails [where cd = "cd\<lparr>mqttSendBuffer := Some (fresh_addr (heap w))\<rparr>"]
      open_connect_fails [where cd = cd]
      heap_purge_remove intro!: heap_purge_cong)

lemma open_recvBuffer_fails:
  assumes "mqtt_rets w = r # rs" and "r \<noteq> UA_STATUSCODE_GOOD"
      and "True \<notin> set (calloc_fails w)"
      and "mqttSendBuffer cd = None" and "mqttRecvBuffer cd = None"
      and "get_channelData w cd_p = Some cd" and "cd_p \<noteq> ch_p"
  shows "fst (open_recvBuffer cd_p ch_p cd w) = None"
    and "heap (snd (open_recvBuffer cd_p ch_p cd w)) = heap_purge {ch_p, cd_p} (heap w)"
    and "mqtt_calls (snd (open_recvBuffer cd_p ch_p cd w)) =
           mqtt_calls w @ [ConnectMqtt (Some cd_p), DisconnectMqtt (Some cd_p)]"
    and "links (snd (open_recvBuffer cd_p ch_p cd w)) = links w - {cd_p}"
  using assms
  by (auto simp: open_recvBuffer_def Let_def UA_calloc_ok not_in_tl
      open_sendBuffer_fails [where cd = "cd\<lparr>mqttRecvBuffer := Some (fresh_addr (heap w))\<rparr>"]
      open_sendBuffer_fails [where cd = cd]
      heap_purge_remove intro!: heap_purge_cong)

lemma connectionProperty_buffers [simp]:
  "mqttSendBuffer (connectionProperty kv cd) = mqttSendBuffer cd"
  "mqttRecvBuffer (connectionProperty kv cd) = mqttRecvBuffer cd"
  by (auto simp: connectionProperty_def split: option.splits)

lemma connectionProperties_loop_buffers [simp]:
  "mqttSendBuffer (connectionProperties_loop kvs cd) = mqttSendBuffer cd"
  "mqttRecvBuffer (connectionProperties_loop kvs cd) = mqttRecvBuffer cd"
  by (induction kvs arbitrary: cd) (simp_all add: connectionProperties_loop_def)

subsection \<open>State transitions\<close>

lemma step_not_ready:
  assumes "channel_state w c \<noteq> Some UA_PUBSUB_CHANNEL_RDY" and "step c op w = Inr (ret, w')"
  shows "channel_state w' c \<noteq> Some UA_PUBSUB_CHANNEL_RDY"
proof (cases op)
  case (Regist ts cb)
  with assms show ?thesis
    by (auto simp: UA_PubSubChannelMQTT_regist_def channel_state_def split: option.splits if_splits)
next
  case (Unregist ts)
  with assms show ?thesis
    by (auto simp: UA_PubSubChannelMQTT_unregist_def channel_state_def
        split: option.splits if_splits)
next
  case (Send ts buf)
  with assms show ?thesis
    by (auto simp: UA_PubSubChannelMQTT_send_def channel_state_def split: option.splits if_splits)
next
  case (Yield t)
  with assms show ?thesis
    by (auto simp: UA_PubSubChannelMQTT_yield_def channel_state_def yieldMqtt_def
        dest!: mqtt_primitive_eq get_channel_heap_eq
        split: option.splits if_splits prod.splits)
next
  case Close
  with assms show ?thesis
    by (auto simp: UA_PubSubChannelMQTT_close_def channel_state_def split: option.splits if_splits)
qed

lemma run_not_ready:
  "channel_state w c \<noteq> Some UA_PUBSUB_CHANNEL_RDY \<Longrightarrow> run c ops w = Inr (rets, w')
   \<Longrightarrow> channel_state w' c \<noteq> Some UA_PUBSUB_CHANNEL_RDY"
proof (induction ops arbitrary: w rets)
  case Nil
  then show ?case by simp
next
  case (Cons op ops)
  from Cons.prems(2) obtain ret w1 rets' where
    s: "step c op w = Inr (ret, w1)" and r: "run c ops w1 = Inr (rets', w')"
    by (auto split: sum.splits prod.splits)
  from step_not_ready [OF Cons.prems(1) s] have "channel_state w1 c \<noteq> Some UA_PUBSUB_CHANNEL_RDY" .
  from Cons.IH [OF this r] show ?case .
qed

lemma step_ready_to_error:
  assumes "channel_state w c = Some UA_PUBSUB_CHANNEL_RDY" and "step c op w = Inr (ret, w')"
      and "channel_state w' c = Some UA_PUBSUB_CHANNEL_ERROR"
  shows "((\<exists>ts buf. op = Send ts buf) \<or> (\<exists>t. op = Yield t))
         \<and> ret \<noteq> UA_STATUSCODE_GOOD \<and> (\<exists>rs. mqtt_rets w = ret # rs)"
proof (cases op)
  case (Regist ts cb)
  with assms show ?thesis
    by (auto simp: UA_PubSubChannelMQTT_regist_def channel_state_def subscribeMqtt_def Let_def
        dest!: mqtt_primitive_eq get_channel_heap_eq dest: get_channel_not_channelData
        split: option.splits if_splits prod.splits)
next
  case (Unregist ts)
  with assms show ?thesis
    by (auto simp: UA_PubSubChannelMQTT_unregist_def channel_state_def unSubscribeMqtt_def
        dest!: mqtt_primitive_eq get_channel_heap_eq
        split: option.splits if_splits)
next
  case (Send ts buf)
  with assms show ?thesis
    by (auto simp: UA_PubSubChannelMQTT_send_def channel_state_def publishMqtt_def
        UA_STATUSCODE_GOOD_def
        dest!: mqtt_primitive_eq get_channel_heap_eq
        split: option.splits if_splits prod.splits list.splits)
next
  case (Yield t)
  with assms show ?thesis
    by (auto simp: UA_PubSubChannelMQTT_yield_def channel_state_def yieldMqtt_def
        dest!: mqtt_primitive_eq get_channel_heap_eq
        split: option.splits if_splits prod.splits list.splits)
next
  case Close
  with assms show ?thesis
    by (auto simp: UA_PubSubChannelMQTT_close_def channel_state_def split: option.splits if_splits)
qed

text \<open>No operation puts a channel into the closed state.\<close>

lemma step_not_closed:
  assumes "channel_state w c \<noteq> Some UA_PUBSUB_CHANNEL_CLOSED" and "step c op w = Inr (ret, w')"
  shows "channel_state w' c \<noteq> Some UA_PUBSUB_CHANNEL_CLOSED"
proof (cases op)
  case (Regist ts cb)
  with assms show ?thesis
    by (auto simp: UA_PubSubChannelMQTT_regist_def channel_state_def subscribeMqtt_def Let_def
        dest!: mqtt_primitive_eq get_channel_heap_eq dest: get_channel_not_channelData
        split: option.splits if_splits prod.splits)
next
  case (Unregist ts)
  with assms show ?thesis
    by (auto simp: UA_PubSubChannelMQTT_unregist_def channel_state_def unSubscribeMqtt_def
        dest!: mqtt_primitive_eq get_channel_heap_eq
        split: option.splits if_splits)
next
  case (Send ts buf)
  with assms show ?thesis
    by (auto simp: UA_PubSubChannelMQTT_send_def channel_state_def publishMqtt_def
        dest!: mqtt_primitive_eq get_channel_heap_eq
        split: option.splits if_splits prod.splits)
next
  case (Yield t)
  with assms show ?thesis
    by (auto simp: UA_PubSubChannelMQTT_yield_def channel_state_def yieldMqtt_def
        dest!: mqtt_primitive_eq get_channel_heap_eq
        split: option.splits if_splits prod.splits)
next
  case Close
  with assms show ?thesis
    by (auto simp: UA_PubSubChannelMQTT_close_def channel_state_def split: option.splits if_splits)
qed

text \<open>
  Register, unregister, send and yield leave the channel where it is, with
  its handle and with the buffers of its MQTT data.
\<close>

lemma step_keeps_channel:
  assumes "get_channel w c = Some ch" and "handle ch = Some p"
      and "get_channelData w p = Some cd"
      and "step c op w = Inr (ret, w')" and "op \<noteq> Close"
  shows "\<exists>ch' cd'. get_channel w' c = Some ch' \<and> handle ch' = Some p
           \<and> get_channelData w' p = Some cd'
           \<and> mqttRecvBuffer cd' = mqttRecvBuffer cd \<and> mqttSendBuffer cd' = mqttSendBuffer cd"
proof -
  from assms(1,3) have ne: "p \<noteq> c" by (rule get_channel_not_channelData)
  show ?thesis
  proof (cases op)
    case (Regist ts cb)
    with assms ne show ?thesis
      by (auto simp: UA_PubSubChannelMQTT_regist_def subscribeMqtt_def Let_def prod_eq_iff
          split: option.splits if_splits prod.splits)
  next
    case (Unregist ts)
    with assms ne show ?thesis
      by (auto simp: UA_PubSubChannelMQTT_unregist_def unSubscribeMqtt_def prod_eq_iff
          split: option.splits if_splits)
  next
    case (Send ts buf)
    with assms ne show ?thesis
      by (auto simp: UA_PubSubChannelMQTT_send_def publishMqtt_def prod_eq_iff
          split: option.splits if_splits prod.splits)
  next
    case (Yield t)
    with assms ne show ?thesis
      by (auto simp: UA_PubSubChannelMQTT_yield_def yieldMqtt_def prod_eq_iff
          split: option.splits if_splits prod.splits)
  next
    case Close
    with assms show ?thesis by simp
  qed
qed

subsection \<open>A successful open\<close>

lemma UA_calloc_Some:
  "UA_calloc b w = (Some a, w1) \<Longrightarrow> a = fresh_addr (heap w) \<and> heap w1 = (a, b) # heap w"
  by (auto simp: UA_calloc_def split: list.splits bool.splits)

lemma get_channelData_Cons:
  "heap w1 = (a, b) # heap w \<Longrightarrow> a \<noteq> k \<Longrightarrow> get_channelData w1 k = get_channelData w k"
  by (simp add: get_channelData_def)

lemma get_channelData_calloc:
  assumes "UA_calloc b w = (Some a, w1)" and "get_channelData w k = Some cd"
  shows "get_channelData w1 k = Some cd"
proof -
  from UA_calloc_Some [OF assms(1)] have a: "a = fresh_addr (heap w)"
    and h: "heap w1 = (a, b) # heap w" by simp_all
  from assms(2) have "(k, ChannelDataBlock cd) \<in> set (heap w)"
    by (auto simp: get_channelData_def split: option.splits block.splits dest: map_of_SomeD)
  then have "a \<noteq> k" using fresh_addr_notin [of "heap w" "ChannelDataBlock cd"] a by auto
  with h assms(2) show ?thesis by (simp add: get_channelData_Cons)
qed

lemma open_connect_Some:
  assumes "open_connect cd_p ch_p w = (Some c, w')" and "cd_p \<noteq> ch_p"
      and "get_channelData w cd_p = Some cd"
  shows "c = ch_p"
    and "get_channel w' c = Some \<lparr>state = UA_PUBSUB_CHANNEL_RDY, handle = Some cd_p\<rparr>"
    and "get_channelData w' cd_p = Some cd"
    and "connect_ids w' = connect_ids w @ [(cd_p, read_during_open (mqttClientId cd))]"
  using assms
  by (auto simp: open_connect_def Let_def connectMqtt_def zero_channel_def case_prod_beta
      clientId_read_def split: if_splits)

lemma open_sendBuffer_Some:
  assumes "open_sendBuffer cd_p ch_p cd w = (Some c, w')" and "cd_p \<noteq> ch_p"
      and "get_channelData w cd_p = Some cd"
  shows "c = ch_p \<and> get_channel w' c = Some \<lparr>state = UA_PUBSUB_CHANNEL_RDY, handle = Some cd_p\<rparr>
       \<and> connect_ids w' = connect_ids w @ [(cd_p, read_during_open (mqttClientId cd))]
       \<and> (\<exists>cd'. get_channelData w' cd_p = Some cd'
             \<and> mqttSendBufferSize cd' = mqttSendBufferSize cd
             \<and> mqttRecvBufferSize cd' = mqttRecvBufferSize cd
             \<and> mqttClientId cd' = mqttClientId cd)"
proof (cases "mqttSendBufferSize cd > 0")
  case False
  with assms(1) have o: "open_connect cd_p ch_p w = (Some c, w')"
    by (simp add: open_sendBuffer_def)
  from open_connect_Some [OF o assms(2,3)] show ?thesis by simp
next
  case True
  with assms(1) obtain b w1 where
    a: "UA_calloc (BufferBlock (unat (mqttSendBufferSize cd))) w = (Some b, w1)" and
    o: "open_connect cd_p ch_p
          (heap_store cd_p (ChannelDataBlock (cd\<lparr>mqttSendBuffer := Some b\<rparr>)) w1) = (Some c, w')"
    by (auto simp: open_sendBuffer_def Let_def split: prod.splits option.splits)
  have g: "get_channelData (heap_store cd_p (ChannelDataBlock (cd\<lparr>mqttSendBuffer := Some b\<rparr>)) w1)
          cd_p = Some (cd\<lparr>mqttSendBuffer := Some b\<rparr>)"
    by simp
  have i: "connect_ids w1 = connect_ids w"
    using a by (auto simp: UA_calloc_def split: list.splits bool.splits)
  from open_connect_Some [OF o assms(2) g] i show ?thesis by simp
qed

lemma open_recvBuffer_Some:
  assumes "open_recvBuffer cd_p ch_p cd w = (Some c, w')" and "cd_p \<noteq> ch_p"
      and "get_channelData w cd_p = Some cd"
  shows "c = ch_p \<and> get_channel w' c = Some \<lparr>state = UA_PUBSUB_CHANNEL_RDY, handle = Some cd_p\<rparr>
       \<and> connect_ids w' = connect_ids w @ [(cd_p, read_during_open (mqttClientId cd))]
       \<and> (\<exists>cd'. get_channelData w' cd_p = Some cd'
             \<and> mqttSendBufferSize cd' = mqttSendBufferSize cd
             \<and> mqttRecvBufferSize cd' = mqttRecvBufferSize cd
             \<and> mqttClientId cd' = mqttClientId cd)"
proof (cases "mqttRecvBufferSize cd > 0")
  case False
  with assms show ?thesis by (simp add: open_recvBuffer_def open_sendBuffer_Some)
next
  case True
  with assms(1) obtain b w1 where
    a: "UA_calloc (BufferBlock (unat (mqttRecvBufferSize cd))) w = (Some b, w1)" and
    s: "open_sendBuffer cd_p ch_p (cd\<lparr>mqttRecvBuffer := Some b\<rparr>)
          (heap_store cd_p (ChannelDataBlock (cd\<lparr>mqttRecvBuffer := Some b\<rparr>)) w1) = (Some c, w')"
    by (auto simp: open_recvBuffer_def Let_def split: prod.splits option.splits)
  have g: "get_channelData (heap_store cd_p (ChannelDataBlock (cd\<lparr>mqttRecvBuffer := Some b\<rparr>)) w1)
          cd_p = Some (cd\<lparr>mqttRecvBuffer := Some b\<rparr>)"
    by simp
  have i: "connect_ids w1 = connect_ids w"
    using a by (auto simp: UA_calloc_def split: list.splits bool.splits)
  from open_sendBuffer_Some [OF s assms(2) g] i show ?thesis by auto
qed

text \<open>
  What a successful open leaves: a ready channel whose handle points to live
  MQTT data with the sizes and the client identifier pointer that the
  properties gave, and one more connect, which read the client identifier
  through that pointer.
\<close>

lemma open_Some:
  assumes "UA_PubSubChannelMQTT_open cfg w = (Some c, w')"
  shows "\<exists>addr p cd'.
           scalar_NETWORKADDRESSURLDATATYPE (address cfg) = Some addr
         \<and> get_channel w' c = Some \<lparr>state = UA_PUBSUB_CHANNEL_RDY, handle = Some p\<rparr>
         \<and> get_channelData w' p = Some cd'
         \<and> connect_ids w' = connect_ids w @
             [(p, read_during_open
                    (mqttClientId (connectionProperties_loop (connectionProperties cfg)
                                     (default_channelData addr))))]
         \<and> mqttSendBufferSize cd' =
             mqttSendBufferSize (connectionProperties_loop (connectionProperties cfg)
                                   (default_channelData addr))
         \<and> mqttRecvBufferSize cd' =
             mqttRecvBufferSize (connectionProperties_loop (connectionProperties cfg)
                                   (default_channelData addr))
         \<and> mqttClientId cd' =
             mqttClientId (connectionProperties_loop (connectionProperties cfg)
                             (default_channelData addr))"
proof -
  define kvs where "kvs = connectionProperties cfg"
  from assms obtain addr where addr: "scalar_NETWORKADDRESSURLDATATYPE (address cfg) = Some addr"
    by (auto simp: UA_PubSubChannelMQTT_open_def split: option.splits)
  define cd where "cd = connectionProperties_loop kvs (default_channelData addr)"
  from assms addr obtain cd_p w1 where
    a1: "UA_calloc (ChannelDataBlock zero_channelData) w = (Some cd_p, w1)"
    by (auto simp: UA_PubSubChannelMQTT_open_def split: option.splits prod.splits)
  define w2 where "w2 = heap_store cd_p (ChannelDataBlock cd) w1"
  from assms addr a1 obtain ch_p w3 where
    a2: "UA_calloc (ChannelBlock zero_channel) w2 = (Some ch_p, w3)" and
    r: "open_recvBuffer cd_p ch_p cd w3 = (Some c, w')"
    by (auto simp: UA_PubSubChannelMQTT_open_def Let_def cd_def w2_def kvs_def
        split: option.splits prod.splits)
  have g2: "get_channelData w2 cd_p = Some cd" by (simp add: w2_def)
  from get_channelData_calloc [OF a2 g2] have g3: "get_channelData w3 cd_p = Some cd" .
  have "(cd_p, ChannelDataBlock cd) \<in> set (heap w2)" by (simp add: w2_def)
  then have ne: "cd_p \<noteq> ch_p"
    using UA_calloc_Some [OF a2] fresh_addr_notin [of "heap w2" "ChannelDataBlock cd"] by auto
  have "connect_ids w1 = connect_ids w"
    using a1 by (auto simp: UA_calloc_def split: list.splits bool.splits)
  moreover have "connect_ids w3 = connect_ids w2"
    using a2 by (auto simp: UA_calloc_def split: list.splits bool.splits)
  ultimately have i: "connect_ids w3 = connect_ids w" by (simp add: w2_def)
  from open_recvBuffer_Some [OF r ne g3] addr i show ?thesis
    unfolding cd_def kvs_def by auto
qed

lemma connectionProperties_loop_sendBufferSize:
  "\<forall>kv \<in> set kvs. name (key kv) \<noteq> ''sendBufferSize'' \<Longrightarrow>
   mqttSendBufferSize (connectionProperties_loop kvs cd) = mqttSendBufferSize cd"
  by (induction kvs arbitrary: cd)
     (auto simp: connectionProperties_loop_def connectionProperty_def split: option.splits)

lemma connectionProperties_loop_recvBufferSize:
  "\<forall>kv \<in> set kvs. name (key kv) \<noteq> ''recvBufferSize'' \<Longrightarrow>
   mqttRecvBufferSize (connectionProperties_loop kvs cd) = mqttRecvBufferSize cd"
  by (induction kvs arbitrary: cd)
     (auto simp: connectionProperties_loop_def connectionProperty_def split: option.splits)

lemma connectionProperties_loop_clientId:
  "\<forall>kv \<in> set kvs. name (key kv) \<noteq> ''mqttClientId'' \<Longrightarrow>
   mqttClientId (connectionProperties_loop kvs cd) = mqttClientId cd"
  by (induction kvs arbitrary: cd)
     (auto simp: connectionProperties_loop_def connectionProperty_def split: option.splits)

subsection \<open>The concrete channel\<close>

lemmas open_defs =
  UA_PubSubChannelMQTT_open_def open_recvBuffer_def open_sendBuffer_def open_connect_def
  UA_calloc_def UA_free_def heap_store_def heap_remove_def fresh_addr_def
  connectMqtt_def clientId_read_def disconnectMqtt_def release_buffers_def
  read_mqttSendBuffer_def read_mqttRecvBuffer_def get_channelData_def mqtt_primitive_def
  connectionProperties_loop_def connectionProperty_def default_channelData_def
  zero_channel_def zero_channelData_def

lemma open_example:
  "UA_PubSubChannelMQTT_open example_config empty_world = (Some 2, ready_world)"
  by (simp add: open_defs example_config_def empty_world_def ready_world_def Let_def)

lemma ready_channel:
  "get_channel ready_world 2 = Some \<lparr>state = UA_PUBSUB_CHANNEL_RDY, handle = Some 1\<rparr>"
  by (simp add: get_channel_def ready_world_def)

lemma ready_channelData:
  "get_channelData ready_world 1 =
     Some \<lparr>cd_address = \<lparr>networkInterface = [], url = ''opc.mqtt://localhost:1883''\<rparr>,
           mqttRecvBufferSize = 2000, mqttSendBufferSize = 2000,
           mqttSendBuffer = Some 4, mqttRecvBuffer = Some 3,
           mqttClientId = Automatic_String ''open62541_pub'', callback = None\<rparr>"
  by (simp add: get_channelData_def ready_world_def)

lemma close_example:
  "UA_PubSubChannelMQTT_close 2 ready_world = Inr (UA_STATUSCODE_GOOD, closed_world)"
  by (simp add: UA_PubSubChannelMQTT_close_def get_channel_def get_channelData_def
      disconnectMqtt_def release_buffers_def UA_free_def heap_store_def heap_remove_def
      ready_world_def closed_world_def)

lemma closed_channel: "get_channel closed_world 2 = None"
  by (simp add: get_channel_def closed_world_def)

lemma failing_channel:
  "get_channel failing_world 2 = Some \<lparr>state = UA_PUBSUB_CHANNEL_RDY, handle = Some 1\<rparr>"
  by (simp add: get_channel_def failing_world_def ready_world_def)

lemma error_channel:
  "get_channel error_world 2 = Some \<lparr>state = UA_PUBSUB_CHANNEL_ERROR, handle = Some 1\<rparr>"
  by (simp add: get_channel_def error_world_def)

lemma error_channelData:
  "get_channelData error_world 1 =
     Some \<lparr>cd_address = \<lparr>networkInterface = [], url = ''opc.mqtt://localhost:1883''\<rparr>,
           mqttRecvBufferSize = 2000, mqttSendBufferSize = 2000,
           mqttSendBuffer = Some 4, mqttRecvBuffer = Some 3,
           mqttClientId = Automatic_String ''open62541_pub'', callback = None\<rparr>"
  by (simp add: get_channelData_def error_world_def)

lemma send_failing_example:
  "UA_PubSubChannelMQTT_send 2
     (Some (example_settings UA_BROKERTRANSPORTQUALITYOFSERVICE_ATLEASTONCE)) [1] failing_world
   = Inr (0x80050000, error_world)"
  by (simp add: UA_PubSubChannelMQTT_send_def failing_channel brokerTransportSettings_def
      example_settings_def UA_uaQos_toMqttQos_def
      UA_BROKERTRANSPORTQUALITYOFSERVICE_BESTEFFORT_def
      UA_BROKERTRANSPORTQUALITYOFSERVICE_ATLEASTONCE_def
      UA_BROKERTRANSPORTQUALITYOFSERVICE_ATMOSTONCE_def publishMqtt_def
      mqtt_primitive_def heap_store_def)
     (simp add: failing_world_def error_world_def ready_world_def heap_remove_def)

lemma send_without_settings:
  assumes "get_channel w c = Some ch" and "state ch = UA_PUBSUB_CHANNEL_RDY"
      and "brokerTransportSettings ts = None"
  shows "UA_PubSubChannelMQTT_send c ts buf w = Inr (UA_STATUSCODE_GOOD, w)"
  using assms by (simp add: UA_PubSubChannelMQTT_send_def)

text \<open>
  After \<open>open\<close> has returned, the default client identifier can no longer
  be read through the pointer in the MQTT data.
\<close>

lemma default_clientId_dangles:
  "map_option (read_after_open \<circ> mqttClientId) (get_channelData ready_world 1) = Some None"
  using ready_channelData by simp

section \<open>The claims\<close>

text \<open>
  Claim C1. For a channel in the Ready state, send with absent, undecoded or
  mistyped transport settings is claimed to return MissingArguments, leave
  the state Ready and publish nothing. The source returns the initial value
  of \<open>ret\<close>, which is good: on the ready channel at address 2, send with a
  \<open>NULL\<close> settings pointer leaves the world as it is (state Ready, no adapter
  call) and returns \<open>UA_STATUSCODE_GOOD\<close>, which is not
  \<open>UA_STATUSCODE_BADARGUMENTSMISSING\<close>.
\<close>

theorem send_missing_settings_reports_good:
  "channel_state ready_world 2 = Some UA_PUBSUB_CHANNEL_RDY
   \<and> UA_PubSubChannelMQTT_send 2 None [1, 2, 3] ready_world = Inr (UA_STATUSCODE_GOOD, ready_world)
   \<and> UA_STATUSCODE_GOOD \<noteq> UA_STATUSCODE_BADARGUMENTSMISSING"
  by (simp add: send_without_settings [OF ready_channel] channel_state_def ready_channel
      brokerTransportSettings_def statuscode_defs)

text \<open>
  Claim C2. For a channel in the Ready or Error state whose handle points to
  its MQTT data, close returns success, the adapter is told to disconnect and
  gives up the connection, and the blocks that leave the heap are exactly the
  channel, the MQTT data, the receive buffer and the send buffer: neither
  buffer is live afterwards.
\<close>

theorem close_releases_connection_and_buffers:
  assumes "get_channel w c = Some ch"
      and "state ch = UA_PUBSUB_CHANNEL_RDY \<or> state ch = UA_PUBSUB_CHANNEL_ERROR"
      and "handle ch = Some p" and "get_channelData w p = Some cd"
  shows "\<exists>w'. UA_PubSubChannelMQTT_close c w = Inr (UA_STATUSCODE_GOOD, w')
            \<and> heap w' =
                heap_purge ({c, p} \<union> set_option (mqttRecvBuffer cd)
                              \<union> set_option (mqttSendBuffer cd)) (heap w)
            \<and> map_of (heap w') c = None \<and> map_of (heap w') p = None
            \<and> (case mqttRecvBuffer cd of None \<Rightarrow> True | Some b \<Rightarrow> map_of (heap w') b = None)
            \<and> (case mqttSendBuffer cd of None \<Rightarrow> True | Some b \<Rightarrow> map_of (heap w') b = None)
            \<and> mqtt_calls w' = mqtt_calls w @ [DisconnectMqtt (Some p)]
            \<and> links w' = links w - {p}"
proof -
  from assms(2) have nc: "state ch \<noteq> UA_PUBSUB_CHANNEL_CLOSED" by auto
  define w' where
    "w' = UA_free (Some c) (UA_free (Some p) (disconnectMqtt (Some p) w))"
  have cl: "UA_PubSubChannelMQTT_close c w = Inr (UA_STATUSCODE_GOOD, w')"
    using assms(1,3,4) nc by (simp add: UA_PubSubChannelMQTT_close_def w'_def)
  have "heap w' = heap_purge {c, p} (heap (disconnectMqtt (Some p) w))"
    by (simp add: w'_def heap_purge_purge insert_commute del: disconnectMqtt_simps(1))
  also have "\<dots> = heap_purge ({c, p} \<union> set_option (mqttRecvBuffer cd)
                              \<union> set_option (mqttSendBuffer cd)) (heap w)"
    by (rule disconnectMqtt_heap_purge [OF assms(4)]) simp
  finally have h: "heap w' = heap_purge ({c, p} \<union> set_option (mqttRecvBuffer cd)
                              \<union> set_option (mqttSendBuffer cd)) (heap w)" .
  have "mqtt_calls w' = mqtt_calls w @ [DisconnectMqtt (Some p)]" and "links w' = links w - {p}"
    by (simp_all add: w'_def)
  with cl h show ?thesis
    by (auto split: option.splits)
qed

text \<open>
  The claim at the channel that \<open>open\<close> returns for the example
  configuration, whose two buffers of 2000 bytes are at the addresses 4 and
  3, and at the same channel in the Error state: after close nothing is left
  on the heap.
\<close>

theorem close_releases_connection_and_buffers_witness:
  "UA_PubSubChannelMQTT_open example_config empty_world = (Some 2, ready_world)
   \<and> channel_state ready_world 2 = Some UA_PUBSUB_CHANNEL_RDY
   \<and> buffers_live ready_world = [4, 3]
   \<and> UA_PubSubChannelMQTT_close 2 ready_world = Inr (UA_STATUSCODE_GOOD, closed_world)
   \<and> heap closed_world = [] \<and> links closed_world = {}
   \<and> channel_state error_world 2 = Some UA_PUBSUB_CHANNEL_ERROR
   \<and> buffers_live error_world = [4, 3]
   \<and> (\<exists>w'. UA_PubSubChannelMQTT_close 2 error_world = Inr (UA_STATUSCODE_GOOD, w')
           \<and> heap w' = [] \<and> links w' = {})"
proof -
  have s: "channel_state ready_world 2 = Some UA_PUBSUB_CHANNEL_RDY"
      "channel_state error_world 2 = Some UA_PUBSUB_CHANNEL_ERROR"
    by (simp_all add: channel_state_def ready_channel error_channel)
  have b: "buffers_live ready_world = [4, 3]" "buffers_live error_world = [4, 3]"
    by (simp_all add: buffers_live_def ready_world_def error_world_def)
  have c: "heap closed_world = []" "links closed_world = {}"
    by (simp_all add: closed_world_def)
  from close_releases_connection_and_buffers [OF error_channel _ _ error_channelData]
  obtain w' where
    "UA_PubSubChannelMQTT_close 2 error_world = Inr (UA_STATUSCODE_GOOD, w')"
    and "heap w' = []" and "links w' = {}"
    by (auto simp: error_world_def ready_world_def)
  then have "\<exists>w'. UA_PubSubChannelMQTT_close 2 error_world = Inr (UA_STATUSCODE_GOOD, w')
           \<and> heap w' = [] \<and> links w' = {}"
    by blast
  with open_example close_example s b c show ?thesis
    by (simp only: simp_thms)
qed

text \<open>
  Claim C3. Close is claimed to be idempotent: after a first successful
  close the channel is in the Closed state, and a second close on it is a
  no-op that returns success. The source tests for the Closed state first
  ("already closed"), but the first close frees the channel and never sets
  that state: for the channel that \<open>open\<close> returns for the example
  configuration the first close returns good, afterwards there is no channel
  at its address, in the Closed state or any other, and the second close
  reads the state through the freed pointer.
\<close>

theorem second_close_reads_freed_channel:
  "UA_PubSubChannelMQTT_open example_config empty_world = (Some 2, ready_world)
   \<and> UA_PubSubChannelMQTT_close 2 ready_world = Inr (UA_STATUSCODE_GOOD, closed_world)
   \<and> get_channel closed_world 2 = None
   \<and> channel_state closed_world 2 \<noteq> Some UA_PUBSUB_CHANNEL_CLOSED
   \<and> UA_PubSubChannelMQTT_close 2 closed_world = Inl InvalidPointer
   \<and> UA_PubSubChannelMQTT_close 2 closed_world \<noteq> Inr (UA_STATUSCODE_GOOD, closed_world)"
proof -
  have n: "channel_state closed_world 2 \<noteq> Some UA_PUBSUB_CHANNEL_CLOSED"
    by (simp add: channel_state_def closed_channel)
  have f: "UA_PubSubChannelMQTT_close 2 closed_world = Inl InvalidPointer"
    by (simp add: UA_PubSubChannelMQTT_close_def closed_channel)
  then have "UA_PubSubChannelMQTT_close 2 closed_world \<noteq> Inr (UA_STATUSCODE_GOOD, closed_world)"
    by simp
  with open_example close_example closed_channel n f show ?thesis
    by (simp only: simp_thms)
qed

text \<open>
  Claim C4, as stated: a configuration that omits sendBufferSize,
  recvBufferSize or the client identifier gets the defaults 2000, 2000 and
  the client identifier "generic\_pub". This fails for the example
  configuration, which has no properties at all: open succeeds, and the
  client identifier that connect reads for the channel is "open62541\_pub".
\<close>

theorem default_clientId_counterexample:
  "connectionProperties example_config = []
   \<and> UA_PubSubChannelMQTT_open example_config empty_world = (Some 2, ready_world)
   \<and> map_option handle (get_channel ready_world 2) = Some (Some 1)
   \<and> connect_ids empty_world = []
   \<and> connect_ids ready_world = [(1, Some ''open62541_pub'')]
   \<and> connect_ids ready_world \<noteq> [(1, Some ''generic_pub'')]"
  using open_example ready_channel
  by (simp add: example_config_def empty_world_def ready_world_def)

text \<open>
  Claim C4, amended: for every connection configuration, a successful open
  has applied the defaults for the properties that the property list does not
  name. With no property named sendBufferSize the send buffer size of the
  channel is 2000, with none named recvBufferSize the receive buffer size is
  2000, and with none named mqttClientId the client identifier that the
  connect of this open read is "open62541\_pub".
\<close>

theorem open_applies_defaults:
  assumes "UA_PubSubChannelMQTT_open cfg w = (Some c, w')"
  shows "\<exists>p cd cid.
           get_channel w' c = Some \<lparr>state = UA_PUBSUB_CHANNEL_RDY, handle = Some p\<rparr>
         \<and> get_channelData w' p = Some cd
         \<and> connect_ids w' = connect_ids w @ [(p, cid)]
         \<and> ((\<forall>kv \<in> set (connectionProperties cfg). name (key kv) \<noteq> ''sendBufferSize'')
              \<longrightarrow> mqttSendBufferSize cd = 2000)
         \<and> ((\<forall>kv \<in> set (connectionProperties cfg). name (key kv) \<noteq> ''recvBufferSize'')
              \<longrightarrow> mqttRecvBufferSize cd = 2000)
         \<and> ((\<forall>kv \<in> set (connectionProperties cfg). name (key kv) \<noteq> ''mqttClientId'')
              \<longrightarrow> cid = Some ''open62541_pub'')"
proof -
  from open_Some [OF assms] obtain addr p cd where
    ch: "get_channel w' c = Some \<lparr>state = UA_PUBSUB_CHANNEL_RDY, handle = Some p\<rparr>" and
    cd: "get_channelData w' p = Some cd" and
    ci: "connect_ids w' = connect_ids w @
           [(p, read_during_open
                  (mqttClientId (connectionProperties_loop (connectionProperties cfg)
                                   (default_channelData addr))))]" and
    s: "mqttSendBufferSize cd =
          mqttSendBufferSize (connectionProperties_loop (connectionProperties cfg)
                                (default_channelData addr))" and
    r: "mqttRecvBufferSize cd =
          mqttRecvBufferSize (connectionProperties_loop (connectionProperties cfg)
                                (default_channelData addr))"
    by blast
  show ?thesis
    using ch cd ci
    by (auto simp: s r connectionProperties_loop_sendBufferSize
        connectionProperties_loop_recvBufferSize connectionProperties_loop_clientId
        default_channelData_def)
qed

theorem open_applies_defaults_witness:
  "UA_PubSubChannelMQTT_open example_config empty_world = (Some 2, ready_world)
   \<and> connectionProperties example_config = []
   \<and> connect_ids empty_world = []
   \<and> connect_ids ready_world = [(1, Some ''open62541_pub'')]
   \<and> (\<exists>cd. get_channelData ready_world 1 = Some cd
          \<and> mqttSendBufferSize cd = 2000
          \<and> mqttRecvBufferSize cd = 2000)"
proof -
  have k: "connectionProperties example_config = []"
    by (simp add: example_config_def)
  have e: "connect_ids empty_world = []"
    by (simp add: empty_world_def)
  from open_applies_defaults [OF open_example] ready_channel show ?thesis
    by (auto simp: open_example k e)
qed

text \<open>
  Claim C5. The translation of the delivery guarantee maps best-effort to
  the QoS level 0, at-least-once to 1 and at-most-once to 2, whatever the
  caller had initialised the output with, and reports success.
\<close>

theorem qos_mapping:
  "UA_uaQos_toMqttQos UA_BROKERTRANSPORTQUALITYOFSERVICE_BESTEFFORT q = (UA_STATUSCODE_GOOD, 0)
   \<and> UA_uaQos_toMqttQos UA_BROKERTRANSPORTQUALITYOFSERVICE_ATLEASTONCE q = (UA_STATUSCODE_GOOD, 1)
   \<and> UA_uaQos_toMqttQos UA_BROKERTRANSPORTQUALITYOFSERVICE_ATMOSTONCE q = (UA_STATUSCODE_GOOD, 2)"
  by (simp add: UA_uaQos_toMqttQos_def qos_enum_defs)

text \<open>
  Claim C6. When the address is valid, no allocation fails and the connect
  step reports a failure, open returns \<open>NULL\<close> and the heap is what it was
  before the call: the MQTT data, the channel and both buffers (where their
  size is not zero) are freed again. The adapter was asked to connect and
  then to disconnect, and holds no connection for the MQTT data.
\<close>

theorem open_connect_failure_rollback:
  assumes addr: "scalar_NETWORKADDRESSURLDATATYPE (address cfg) = Some addr"
      and mem: "True \<notin> set (calloc_fails w)"
      and net: "mqtt_rets w = r # rs" and bad: "r \<noteq> UA_STATUSCODE_GOOD"
  shows "fst (UA_PubSubChannelMQTT_open cfg w) = None
       \<and> heap (snd (UA_PubSubChannelMQTT_open cfg w)) = heap w
       \<and> mqtt_calls (snd (UA_PubSubChannelMQTT_open cfg w)) =
           mqtt_calls w @ [ConnectMqtt (Some (fresh_addr (heap w))),
                           DisconnectMqtt (Some (fresh_addr (heap w)))]
       \<and> links (snd (UA_PubSubChannelMQTT_open cfg w)) = links w - {fresh_addr (heap w)}"
proof -
  define cd where
    "cd = connectionProperties_loop (connectionProperties cfg) (default_channelData addr)"
  define cd_p where "cd_p = fresh_addr (heap w)"
  define w1 where
    "w1 = w\<lparr>heap := (cd_p, ChannelDataBlock zero_channelData) # heap w,
             calloc_fails := tl (calloc_fails w)\<rparr>"
  define w2 where "w2 = heap_store cd_p (ChannelDataBlock cd) w1"
  define ch_p where "ch_p = fresh_addr (heap w2)"
  define w3 where
    "w3 = w2\<lparr>heap := (ch_p, ChannelBlock zero_channel) # heap w2,
              calloc_fails := tl (calloc_fails w2)\<rparr>"
  have h2: "heap w2 = (cd_p, ChannelDataBlock cd) # heap w"
    by (simp add: w2_def w1_def cd_p_def)
  have h3: "heap w3 = (ch_p, ChannelBlock zero_channel) # (cd_p, ChannelDataBlock cd) # heap w"
    by (simp add: w3_def h2)
  have ne: "cd_p \<noteq> ch_p"
    using fresh_addr_notin [of "heap w2" "ChannelDataBlock cd"] by (auto simp: ch_p_def h2)
  have a1: "UA_calloc (ChannelDataBlock zero_channelData) w = (Some cd_p, w1)"
    using mem by (simp add: UA_calloc_ok cd_p_def w1_def)
  have m2: "True \<notin> set (calloc_fails w2)"
    using mem by (simp add: w2_def w1_def not_in_tl)
  then have a2: "UA_calloc (ChannelBlock zero_channel) w2 = (Some ch_p, w3)"
    by (simp add: UA_calloc_ok ch_p_def w3_def)
  have o: "UA_PubSubChannelMQTT_open cfg w = open_recvBuffer cd_p ch_p cd w3"
    by (simp add: UA_PubSubChannelMQTT_open_def addr a1 Let_def a2 [unfolded w2_def cd_def]
        cd_def w2_def)
  have g3: "get_channelData w3 cd_p = Some cd"
    using ne by (simp add: get_channelData_def h3)
  have n3: "mqtt_rets w3 = r # rs" and m3: "True \<notin> set (calloc_fails w3)"
    and c3: "mqtt_calls w3 = mqtt_calls w" and l3: "links w3 = links w"
    using net m2 by (simp_all add: w3_def w2_def w1_def not_in_tl)
  have b: "mqttSendBuffer cd = None" "mqttRecvBuffer cd = None"
    by (simp_all add: cd_def default_channelData_def)
  note f = open_recvBuffer_fails [OF n3 bad m3 b g3 ne]
  have "heap_purge {ch_p, cd_p} (heap w3) = heap_purge {ch_p, cd_p} (heap w)"
    by (simp add: h3)
  also have "\<dots> = heap w"
  proof (rule heap_purge_id)
    fix k blk assume k: "(k, blk) \<in> set (heap w)"
    then have "k \<noteq> cd_p" using fresh_addr_notin [of "heap w" blk] by (auto simp: cd_p_def)
    moreover have "k \<noteq> ch_p"
      using k fresh_addr_notin_Cons [of "(cd_p, ChannelDataBlock cd)" "heap w" blk]
      by (auto simp: ch_p_def h2)
    ultimately show "k \<notin> {ch_p, cd_p}" by simp
  qed
  finally have "heap_purge {ch_p, cd_p} (heap w3) = heap w" .
  with f show ?thesis
    by (simp add: o c3 l3 cd_p_def)
qed

theorem open_connect_failure_rollback_witness:
  "scalar_NETWORKADDRESSURLDATATYPE (address example_config) =
     Some \<lparr>networkInterface = [], url = ''opc.mqtt://localhost:1883''\<rparr>
   \<and> True \<notin> set (calloc_fails (empty_world\<lparr>mqtt_rets := [0x80050000]\<rparr>))
   \<and> mqtt_rets (empty_world\<lparr>mqtt_rets := [0x80050000]\<rparr>) = [0x80050000]
   \<and> (0x80050000 :: UA_StatusCode) \<noteq> UA_STATUSCODE_GOOD
   \<and> fst (UA_PubSubChannelMQTT_open example_config (empty_world\<lparr>mqtt_rets := [0x80050000]\<rparr>))
       = None
   \<and> heap (snd (UA_PubSubChannelMQTT_open example_config
                   (empty_world\<lparr>mqtt_rets := [0x80050000]\<rparr>))) = []
   \<and> mqtt_calls (snd (UA_PubSubChannelMQTT_open example_config
                         (empty_world\<lparr>mqtt_rets := [0x80050000]\<rparr>)))
       = [ConnectMqtt (Some 1), DisconnectMqtt (Some 1)]"
proof -
  have a: "scalar_NETWORKADDRESSURLDATATYPE (address example_config) =
             Some \<lparr>networkInterface = [], url = ''opc.mqtt://localhost:1883''\<rparr>"
    by (simp add: example_config_def)
  have m: "True \<notin> set (calloc_fails (empty_world\<lparr>mqtt_rets := [0x80050000]\<rparr>))"
    by (simp add: empty_world_def)
  have n: "mqtt_rets (empty_world\<lparr>mqtt_rets := [0x80050000]\<rparr>) = [0x80050000]"
    by simp
  have b: "(0x80050000 :: UA_StatusCode) \<noteq> UA_STATUSCODE_GOOD"
    by (simp add: UA_STATUSCODE_GOOD_def)
  have h: "heap (empty_world\<lparr>mqtt_rets := [0x80050000]\<rparr>) = []"
      "mqtt_calls (empty_world\<lparr>mqtt_rets := [0x80050000]\<rparr>) = []"
    by (simp_all add: empty_world_def)
  have f: "fresh_addr [] = 1"
    by (simp add: fresh_addr_def)
  from open_connect_failure_rollback [OF a m n b] a m n b show ?thesis
    by (simp only: f h append_Nil simp_thms)
qed

text \<open>
  Claim C7. Whatever operation is applied to a channel in the Ready state,
  the channel is in the Error state afterwards only when the operation was a
  send or a yield and the adapter reported the failure that the operation
  returns; and from the Error state no sequence of operations brings the
  channel back to the Ready state.
\<close>

theorem error_only_on_transport_failure_and_sticky:
  "(channel_state w c = Some UA_PUBSUB_CHANNEL_RDY \<and> step c op w = Inr (ret, w1)
      \<and> channel_state w1 c = Some UA_PUBSUB_CHANNEL_ERROR
    \<longrightarrow> ((\<exists>ts buf. op = Send ts buf) \<or> (\<exists>t. op = Yield t))
        \<and> ret \<noteq> UA_STATUSCODE_GOOD \<and> (\<exists>rs. mqtt_rets w = ret # rs))
   \<and> (channel_state v c = Some UA_PUBSUB_CHANNEL_ERROR \<and> run c ops v = Inr (rets, v')
    \<longrightarrow> channel_state v' c \<noteq> Some UA_PUBSUB_CHANNEL_RDY)"
proof (intro conjI impI)
  assume a: "channel_state w c = Some UA_PUBSUB_CHANNEL_RDY \<and> step c op w = Inr (ret, w1)
      \<and> channel_state w1 c = Some UA_PUBSUB_CHANNEL_ERROR"
  then have "((\<exists>ts buf. op = Send ts buf) \<or> (\<exists>t. op = Yield t))
         \<and> ret \<noteq> UA_STATUSCODE_GOOD \<and> (\<exists>rs. mqtt_rets w = ret # rs)"
    using step_ready_to_error [of w c op ret w1] by blast
  then show "(\<exists>ts buf. op = Send ts buf) \<or> (\<exists>t. op = Yield t)"
    and "ret \<noteq> UA_STATUSCODE_GOOD" and "\<exists>rs. mqtt_rets w = ret # rs"
    by blast+
next
  assume b: "channel_state v c = Some UA_PUBSUB_CHANNEL_ERROR \<and> run c ops v = Inr (rets, v')"
  then have "channel_state v c \<noteq> Some UA_PUBSUB_CHANNEL_RDY" by simp
  with b show "channel_state v' c \<noteq> Some UA_PUBSUB_CHANNEL_RDY"
    using run_not_ready [of v c ops rets v'] by blast
qed

text \<open>
  The two parts of C7 at the concrete channel: a send on which the adapter
  reports a communication error takes the ready channel to the Error state,
  and a send, a register, an unregister and a yield after that all fail and
  leave it there.
\<close>

theorem error_only_on_transport_failure_and_sticky_witness:
  "channel_state failing_world 2 = Some UA_PUBSUB_CHANNEL_RDY
   \<and> step 2 (Send (Some (example_settings UA_BROKERTRANSPORTQUALITYOFSERVICE_ATLEASTONCE)) [1])
        failing_world = Inr (0x80050000, error_world)
   \<and> channel_state error_world 2 = Some UA_PUBSUB_CHANNEL_ERROR
   \<and> (0x80050000 :: UA_StatusCode) \<noteq> UA_STATUSCODE_GOOD
   \<and> mqtt_rets failing_world = [0x80050000]
   \<and> run 2 [Send (Some (example_settings UA_BROKERTRANSPORTQUALITYOFSERVICE_ATLEASTONCE)) [1],
             Regist (Some (example_settings UA_BROKERTRANSPORTQUALITYOFSERVICE_ATLEASTONCE)) None,
             Unregist None, Yield 10] error_world
       = Inr ([UA_STATUSCODE_BADCONNECTIONCLOSED, UA_STATUSCODE_BADCONNECTIONCLOSED,
               UA_STATUSCODE_BADCONNECTIONCLOSED, UA_STATUSCODE_BADINTERNALERROR], error_world)
   \<and> channel_state error_world 2 \<noteq> Some UA_PUBSUB_CHANNEL_RDY"
proof -
  have r: "channel_state failing_world 2 = Some UA_PUBSUB_CHANNEL_RDY"
    by (simp add: channel_state_def failing_channel)
  have s: "step 2 (Send (Some (example_settings UA_BROKERTRANSPORTQUALITYOFSERVICE_ATLEASTONCE)) [1])
             failing_world = Inr (0x80050000, error_world)"
    by (simp add: send_failing_example)
  have e: "channel_state error_world 2 = Some UA_PUBSUB_CHANNEL_ERROR"
    by (simp add: channel_state_def error_channel)
  have q: "run 2 [Send (Some (example_settings UA_BROKERTRANSPORTQUALITYOFSERVICE_ATLEASTONCE)) [1],
             Regist (Some (example_settings UA_BROKERTRANSPORTQUALITYOFSERVICE_ATLEASTONCE)) None,
             Unregist None, Yield 10] error_world
       = Inr ([UA_STATUSCODE_BADCONNECTIONCLOSED, UA_STATUSCODE_BADCONNECTIONCLOSED,
               UA_STATUSCODE_BADCONNECTIONCLOSED, UA_STATUSCODE_BADINTERNALERROR], error_world)"
    by (simp add: UA_PubSubChannelMQTT_send_def UA_PubSubChannelMQTT_regist_def
        UA_PubSubChannelMQTT_unregist_def UA_PubSubChannelMQTT_yield_def error_channel)
  have m: "mqtt_rets failing_world = [0x80050000]"
    by (simp add: failing_world_def)
  from error_only_on_transport_failure_and_sticky
         [of failing_world 2
             "Send (Some (example_settings UA_BROKERTRANSPORTQUALITYOFSERVICE_ATLEASTONCE)) [1]"
             "0x80050000" error_world error_world
             "[Send (Some (example_settings UA_BROKERTRANSPORTQUALITYOFSERVICE_ATLEASTONCE)) [1],
               Regist (Some (example_settings UA_BROKERTRANSPORTQUALITYOFSERVICE_ATLEASTONCE)) None,
               Unregist None, Yield 10]"
             "[UA_STATUSCODE_BADCONNECTIONCLOSED, UA_STATUSCODE_BADCONNECTIONCLOSED,
               UA_STATUSCODE_BADCONNECTIONCLOSED, UA_STATUSCODE_BADINTERNALERROR]" error_world]
       r s e q m
  show ?thesis by simp
qed

text \<open>
  Claim C8. For a namespace index with a linked backend, removing the
  mapping makes the lookup of that index return the default backend, and
  neither removing nor replacing the mapping touches the backend that was
  linked: it still lists the same nodes.
\<close>

theorem unlink_returns_default_and_keeps_backend:
  assumes "nodestoreArray (switch w) n = Some b"
  shows "UA_Nodestore_Switch_getNodestore n (UA_Nodestore_Switch_setNodestore n None w)
           = defaultNodestore (switch w)
       \<and> iterate b (UA_Nodestore_Switch_setNodestore n None w) = iterate b w
       \<and> iterate b (UA_Nodestore_Switch_setNodestore n (Some b') w) = iterate b w"
  using assms
  by (simp add: UA_Nodestore_Switch_getNodestore_def UA_Nodestore_Switch_setNodestore_def
      iterate_def)

theorem unlink_returns_default_and_keeps_backend_witness:
  "nodestoreArray (switch example_server) 1 = Some 20
   \<and> UA_Nodestore_Switch_getNodestore 1 example_server = 20
   \<and> UA_Nodestore_Switch_getNodestore 1 (UA_Nodestore_Switch_setNodestore 1 None example_server)
       = 10
   \<and> iterate 20 (UA_Nodestore_Switch_setNodestore 1 None example_server)
       = Some [''TestNode1'', ''TestNode2'', ''TestNode3'']
   \<and> iterate 20 (UA_Nodestore_Switch_setNodestore 1 (Some 30) example_server)
       = Some [''TestNode1'', ''TestNode2'', ''TestNode3'']"
proof -
  have l: "nodestoreArray (switch example_server) 1 = Some 20"
    by (simp add: example_server_def)
  have i: "iterate 20 example_server = Some [''TestNode1'', ''TestNode2'', ''TestNode3'']"
    by (simp add: iterate_def example_server_def)
  have d: "defaultNodestore (switch example_server) = 10"
    by (simp add: example_server_def)
  have g: "UA_Nodestore_Switch_getNodestore 1 example_server = 20"
    by (simp add: UA_Nodestore_Switch_getNodestore_def l)
  from unlink_returns_default_and_keeps_backend [OF l, of 30] l i d g show ?thesis
    by simp
qed

text \<open>
  Claim C9. Register stores the callback before it looks at the settings: on
  a Ready channel, a register call with absent or mistyped settings returns
  \<open>UA_STATUSCODE_BADARGUMENTSMISSING\<close>, and the callback stored in the MQTT
  data afterwards is the one passed to that call. The channel stays Ready
  and the adapter is not called.
\<close>

theorem regist_overwrites_callback:
  assumes "get_channel w c = Some ch" and "state ch = UA_PUBSUB_CHANNEL_RDY"
      and "handle ch = Some p" and "get_channelData w p = Some cd"
      and "brokerTransportSettings ts = None"
  shows "\<exists>w'. UA_PubSubChannelMQTT_regist c ts cb w = Inr (UA_STATUSCODE_BADARGUMENTSMISSING, w')
            \<and> get_channelData w' p = Some (cd\<lparr>callback := cb\<rparr>)
            \<and> channel_state w' c = Some UA_PUBSUB_CHANNEL_RDY
            \<and> mqtt_calls w' = mqtt_calls w"
  using assms get_channel_not_channelData [of w c ch p cd]
  by (simp add: UA_PubSubChannelMQTT_regist_def Let_def channel_state_def)

theorem regist_overwrites_callback_witness:
  "get_channel ready_world 2 = Some \<lparr>state = UA_PUBSUB_CHANNEL_RDY, handle = Some 1\<rparr>
   \<and> map_option callback (get_channelData ready_world 1) = Some None
   \<and> brokerTransportSettings None = None
   \<and> (\<exists>w'. UA_PubSubChannelMQTT_regist 2 None (Some 7) ready_world
              = Inr (UA_STATUSCODE_BADARGUMENTSMISSING, w')
           \<and> map_option callback (get_channelData w' 1) = Some (Some 7))"
proof -
  have b: "brokerTransportSettings None = None"
    by (simp add: brokerTransportSettings_def)
  from regist_overwrites_callback [OF ready_channel _ _ ready_channelData b, of "Some 7"]
  obtain w' where
    "UA_PubSubChannelMQTT_regist 2 None (Some 7) ready_world
       = Inr (UA_STATUSCODE_BADARGUMENTSMISSING, w')"
    and "map_option callback (get_channelData w' 1) = Some (Some 7)"
    by auto
  then show ?thesis
    using ready_channel ready_channelData b by auto
qed

text \<open>
  Claim C10. For a delivery guarantee that is none of the three named
  values, the translation reports success and leaves the output at the value
  the caller initialised it with; register and send initialise it with 0, so
  on a Ready channel both go on to the adapter with the QoS level 0 and return
  what the adapter returns.
\<close>

theorem unknown_guarantee_uses_qos_0:
  assumes "g \<noteq> UA_BROKERTRANSPORTQUALITYOFSERVICE_BESTEFFORT"
      and "g \<noteq> UA_BROKERTRANSPORTQUALITYOFSERVICE_ATLEASTONCE"
      and "g \<noteq> UA_BROKERTRANSPORTQUALITYOFSERVICE_ATMOSTONCE"
      and "get_channel w c = Some ch" and "state ch = UA_PUBSUB_CHANNEL_RDY"
      and "handle ch = Some p" and "get_channelData w p = Some cd"
      and "brokerTransportSettings ts = Some bts" and "requestedDeliveryGuarantee bts = g"
  shows "UA_uaQos_toMqttQos g q = (UA_STATUSCODE_GOOD, q)
       \<and> (\<exists>ret w'. UA_PubSubChannelMQTT_send c ts buf w = Inr (ret, w')
             \<and> mqtt_calls w' = mqtt_calls w @ [PublishMqtt (Some p) (queueName bts) buf 0]
             \<and> ret = (case mqtt_rets w of [] \<Rightarrow> UA_STATUSCODE_GOOD | r # rs \<Rightarrow> r))
       \<and> (\<exists>ret w'. UA_PubSubChannelMQTT_regist c ts cb w = Inr (ret, w')
             \<and> mqtt_calls w' = mqtt_calls w @ [SubscribeMqtt (Some p) (queueName bts) 0]
             \<and> ret = (case mqtt_rets w of [] \<Rightarrow> UA_STATUSCODE_GOOD | r # rs \<Rightarrow> r))"
  using assms
  by (auto simp: UA_uaQos_toMqttQos_def UA_PubSubChannelMQTT_send_def
      UA_PubSubChannelMQTT_regist_def publishMqtt_def subscribeMqtt_def Let_def
      mqtt_primitive_def split: list.splits)

theorem unknown_guarantee_uses_qos_0_witness:
  "UA_BROKERTRANSPORTQUALITYOFSERVICE_EXACTLYONCE \<noteq> UA_BROKERTRANSPORTQUALITYOFSERVICE_BESTEFFORT
   \<and> UA_BROKERTRANSPORTQUALITYOFSERVICE_EXACTLYONCE \<noteq> UA_BROKERTRANSPORTQUALITYOFSERVICE_ATLEASTONCE
   \<and> UA_BROKERTRANSPORTQUALITYOFSERVICE_EXACTLYONCE \<noteq> UA_BROKERTRANSPORTQUALITYOFSERVICE_ATMOSTONCE
   \<and> UA_uaQos_toMqttQos UA_BROKERTRANSPORTQUALITYOFSERVICE_EXACTLYONCE 0 = (UA_STATUSCODE_GOOD, 0)
   \<and> (\<exists>w'. UA_PubSubChannelMQTT_send 2
              (Some (example_settings UA_BROKERTRANSPORTQUALITYOFSERVICE_EXACTLYONCE)) [1]
              ready_world = Inr (UA_STATUSCODE_GOOD, w')
           \<and> mqtt_calls w' = [ConnectMqtt (Some 1), PublishMqtt (Some 1) ''t'' [1] 0])
   \<and> (\<exists>w'. UA_PubSubChannelMQTT_regist 2
              (Some (example_settings UA_BROKERTRANSPORTQUALITYOFSERVICE_EXACTLYONCE)) (Some 7)
              ready_world = Inr (UA_STATUSCODE_GOOD, w')
           \<and> mqtt_calls w' = [ConnectMqtt (Some 1), SubscribeMqtt (Some 1) ''t'' 0])"
proof -
  have n: "UA_BROKERTRANSPORTQUALITYOFSERVICE_EXACTLYONCE
             \<noteq> UA_BROKERTRANSPORTQUALITYOFSERVICE_BESTEFFORT"
      "UA_BROKERTRANSPORTQUALITYOFSERVICE_EXACTLYONCE
             \<noteq> UA_BROKERTRANSPORTQUALITYOFSERVICE_ATLEASTONCE"
      "UA_BROKERTRANSPORTQUALITYOFSERVICE_EXACTLYONCE
             \<noteq> UA_BROKERTRANSPORTQUALITYOFSERVICE_ATMOSTONCE"
    by (simp_all add: qos_enum_defs)
  have b: "brokerTransportSettings
             (Some (example_settings UA_BROKERTRANSPORTQUALITYOFSERVICE_EXACTLYONCE))
           = Some (decoded_data (example_settings UA_BROKERTRANSPORTQUALITYOFSERVICE_EXACTLYONCE))"
    by (simp add: brokerTransportSettings_def example_settings_def)
  have g: "requestedDeliveryGuarantee
             (decoded_data (example_settings UA_BROKERTRANSPORTQUALITYOFSERVICE_EXACTLYONCE))
           = UA_BROKERTRANSPORTQUALITYOFSERVICE_EXACTLYONCE"
      "queueName (decoded_data (example_settings UA_BROKERTRANSPORTQUALITYOFSERVICE_EXACTLYONCE))
           = ''t''"
    by (simp_all add: example_settings_def)
  have m: "mqtt_rets ready_world = []" "mqtt_calls ready_world = [ConnectMqtt (Some 1)]"
    by (simp_all add: ready_world_def)
  from unknown_guarantee_uses_qos_0
         [OF n ready_channel _ _ ready_channelData b g(1), of 0 "[1]" "Some 7"] n
  show ?thesis
    by (simp add: g m)
qed

end
